theory Spec2Isabelle
  imports Main
begin

section \<open>Occupancy rows of a property section\<close>

text \<open>
  A shallow embedding of \<^verbatim>\<open>src/ulmaniai/occupancyUtils.ts\<close> (the row-derivation
  function \<^verbatim>\<open>autoSetUsageStatus\<close>) and of \<^verbatim>\<open>src/ulmaniai/useOccupancySection.ts\<close>
  (the React hook that keeps one \<^verbatim>\<open>SectionInfo\<close> per occupancy status).

  Modelling decisions:
  \<^item> a JavaScript \<^verbatim>\<open>number\<close> that counts rows is an \<open>int\<close>: the hook only ever passes
    \<^verbatim>\<open>Number(digits) || 0\<close>, a non-negative integer; fractions, infinities and the
    rounding of integers beyond \<open>2^53\<close> are outside the model, and so are the engine's limits
    on the length of an array: what is proved of a handler that builds rows is stated for counts
    up to a limit (see the counts within a limit below);
  \<^item> a string is a \<open>string\<close> of bytes, the Korean labels being their UTF-8 encodings;
  \<^item> the optional field \<^verbatim>\<open>businessRegistration?\<close> is a \<open>string option\<close>, \<open>None\<close> when
    the object has no such field;
  \<^item> the \<^verbatim>\<open>InfoRecord\<close> object is a map from statuses to \<^verbatim>\<open>SectionInfo\<close>, \<open>None\<close> where
    the object has no entry (reading a field of such an entry throws a \<^verbatim>\<open>TypeError\<close>);
  \<^item> a handler is a function from the rendered state to the next state: every event is handled
    on a fresh render, so the \<^verbatim>\<open>info\<close> a handler closes over is the \<^verbatim>\<open>prev\<close> its updater
    receives.
\<close>

subsection \<open>Data model\<close>

datatype OccupancyStatus = Residence | Rent | Both | SelfUse

record LeaseRow =
  id_row :: string
  usage :: string
  deposit :: string
  rent :: string
  businessRegistration :: "string option"

record SectionInfo =
  totalCount :: string
  tenantCount :: string
  leaseRows :: "LeaseRow list"

subsection \<open>The usage labels\<close>

text \<open>The label of a rented row, \<^verbatim>\<open>U+C784 U+B300\<close>.\<close>

definition usage_rented :: string where
  "usage_rented = [CHR 0xEC, CHR 0x9E, CHR 0x84, CHR 0xEB, CHR 0x8C, CHR 0x80]"

text \<open>The label of a vacant row, \<^verbatim>\<open>U+ACF5 U+C2E4\<close>.\<close>

definition usage_vacant :: string where
  "usage_vacant = [CHR 0xEA, CHR 0xB3, CHR 0xB5, CHR 0xEC, CHR 0x8B, CHR 0xA4]"

text \<open>The label of every row of a residential section that the owner lives in,
  \<^verbatim>\<open>U+AC70 U+C8FC U+0020 U+C911\<close>.\<close>

definition usage_residing :: string where
  "usage_residing = [CHR 0xEA, CHR 0xB1, CHR 0xB0, CHR 0xEC, CHR 0xA3, CHR 0xBC, CHR 0x20,
     CHR 0xEC, CHR 0xA4, CHR 0x91]"

text \<open>The label of a row of a commercial section that the owner uses,
  \<^verbatim>\<open>U+C9C1 U+C811 U+C0AC U+C6A9\<close>.\<close>

definition usage_direct :: string where
  "usage_direct = [CHR 0xEC, CHR 0xA7, CHR 0x81, CHR 0xEC, CHR 0xA0, CHR 0x91, CHR 0xEC, CHR 0x82,
     CHR 0xAC, CHR 0xEC, CHR 0x9A, CHR 0xA9]"

text \<open>The label of the owner's row that closes a mixed residential section,
  \<^verbatim>\<open>U+AC70 U+C8FC\<close>.\<close>

definition usage_residence :: string where
  "usage_residence = [CHR 0xEA, CHR 0xB1, CHR 0xB0, CHR 0xEC, CHR 0xA3, CHR 0xBC]"

subsection \<open>Numbers and strings of JavaScript\<close>

definition digit_char :: "nat \<Rightarrow> char" where
  "digit_char d = ''0123456789'' ! d"

definition digit_val :: "char \<Rightarrow> nat" where
  "digit_val c = of_char c - 48"

definition is_digit :: "char \<Rightarrow> bool" where
  "is_digit c = (c \<in> set ''0123456789'')"

text \<open>\<^verbatim>\<open>String(n)\<close> of a non-negative integer: its decimal digits, most significant first.\<close>

fun String_nat :: "nat \<Rightarrow> string" where
  "String_nat n =
     (if n < 10 then [digit_char n] else String_nat (n div 10) @ [digit_char (n mod 10)])"

declare String_nat.simps [simp del]

text \<open>\<^verbatim>\<open>String(n)\<close> of an integer.\<close>

definition String_num :: "int \<Rightarrow> string" where
  "String_num n = (if n < 0 then CHR ''-'' # String_nat (nat (- n)) else String_nat (nat n))"

text \<open>\<^verbatim>\<open>value.replace(/[^0-9]/g, '')\<close>: the digits of the string, in order.\<close>

definition onlyNumbers :: "string \<Rightarrow> string" where
  "onlyNumbers v = filter is_digit v"

text \<open>
  \<^verbatim>\<open>Number(s)\<close>, with \<open>None\<close> for \<^verbatim>\<open>NaN\<close>. The model is exact on the strings of digits, the
  only strings the hook stores as counts (the empty string is \<open>0\<close>, leading zeros are
  allowed). Every other string is taken to \<^verbatim>\<open>NaN\<close>; that is what JavaScript does for text
  that is no numeric literal, while a string with a sign, a fraction, an exponent, a radix
  prefix or white space around it, which JavaScript reads as a number, is outside the model.
  No handler stores such a string.
\<close>

definition Number :: "string \<Rightarrow> int option" where
  "Number s =
     (if list_all is_digit s then Some (int (foldl (\<lambda>a c. 10 * a + digit_val c) 0 s)) else None)"

text \<open>\<^verbatim>\<open>Number(s) || 0\<close>: \<^verbatim>\<open>NaN\<close> and \<open>0\<close> are falsy.\<close>

definition Number_or_0 :: "string \<Rightarrow> int" where
  "Number_or_0 s = (case Number s of None \<Rightarrow> 0 | Some n \<Rightarrow> if n = 0 then 0 else n)"

text \<open>\<^verbatim>\<open>existingRows[i]\<close>: \<^verbatim>\<open>undefined\<close> beyond the end of the array.\<close>

definition index_opt :: "'a list \<Rightarrow> nat \<Rightarrow> 'a option" where
  "index_opt xs i = (if i < length xs then Some (xs ! i) else None)"

text \<open>\<^verbatim>\<open>existingRow?.field || ''\<close> for a field that is a string.\<close>

definition field_or_empty :: "(LeaseRow \<Rightarrow> string) \<Rightarrow> LeaseRow option \<Rightarrow> string" where
  "field_or_empty f existingRow =
     (case existingRow of None \<Rightarrow> [] | Some r \<Rightarrow> if f r = [] then [] else f r)"

text \<open>\<^verbatim>\<open>existingRow?.businessRegistration || ''\<close>, the field being optional.\<close>

definition registration_or_empty :: "LeaseRow option \<Rightarrow> string" where
  "registration_or_empty existingRow =
     (case existingRow of None \<Rightarrow> []
      | Some r \<Rightarrow> (case businessRegistration r of None \<Rightarrow> [] | Some b \<Rightarrow> if b = [] then [] else b))"

subsection \<open>The row-derivation function\<close>

text \<open>
  \<^verbatim>\<open>for (let i = 0; i < n; i += 1) { newRows.push(body(i)); }\<close> from the index \<open>i\<close> on, with
  the rows pushed so far.
\<close>

function for_loop :: "(nat \<Rightarrow> 'a) \<Rightarrow> int \<Rightarrow> nat \<Rightarrow> 'a list \<Rightarrow> 'a list" where
  "for_loop body n i newRows =
     (if int i < n then for_loop body n (Suc i) (newRows @ [body i]) else newRows)"
  by pat_completeness auto
termination
  by (relation "measure (\<lambda>(body, n, i, newRows). nat (n - int i))") auto

declare for_loop.simps [simp del]

text \<open>The row pushed at index \<open>i\<close> by the loop of the \<^verbatim>\<open>'residence'\<close>/\<^verbatim>\<open>'self-use'\<close> branch.\<close>

definition residence_row :: "bool \<Rightarrow> nat \<Rightarrow> LeaseRow" where
  "residence_row com i =
     \<lparr>id_row = String_num (int i + 1),
      usage = (if com then usage_direct else usage_residing),
      deposit = [],
      rent = [],
      businessRegistration = (if com then Some [] else None)\<rparr>"

text \<open>The row pushed at index \<open>i\<close> by the loop of the \<^verbatim>\<open>'rent'\<close> branch.\<close>

definition rent_row :: "int \<Rightarrow> LeaseRow list \<Rightarrow> nat \<Rightarrow> LeaseRow" where
  "rent_row tenantC existingRows i =
     (let existingRow = index_opt existingRows i;
          u = (if int i < tenantC then usage_rented else usage_vacant)
      in \<lparr>id_row = String_num (int i + 1),
          usage = u,
          deposit = (if u = usage_rented then field_or_empty deposit existingRow else []),
          rent = (if u = usage_rented then field_or_empty rent existingRow else []),
          businessRegistration = None\<rparr>)"

text \<open>The row pushed at index \<open>i\<close> by the loop of the \<^verbatim>\<open>'both'\<close> branch.\<close>

definition both_row :: "int \<Rightarrow> LeaseRow list \<Rightarrow> bool \<Rightarrow> nat \<Rightarrow> LeaseRow" where
  "both_row tenantC existingRows com i =
     (let existingRow = index_opt existingRows i;
          u = (if int i < tenantC then usage_rented else usage_vacant)
      in \<lparr>id_row = String_num (int i + 1),
          usage = u,
          deposit = (if u = usage_rented then field_or_empty deposit existingRow else []),
          rent = (if u = usage_rented then field_or_empty rent existingRow else []),
          businessRegistration =
            (if com then Some (registration_or_empty existingRow) else None)\<rparr>)"

text \<open>The row pushed last by the \<^verbatim>\<open>'both'\<close> branch.\<close>

definition owner_row :: "int \<Rightarrow> bool \<Rightarrow> LeaseRow" where
  "owner_row rentCount com =
     \<lparr>id_row = String_num (rentCount + 1),
      usage = (if com then usage_direct else usage_residence),
      deposit = [],
      rent = [],
      businessRegistration = (if com then Some [] else None)\<rparr>"

text \<open>
  \<^verbatim>\<open>autoSetUsageStatus(totalCount, tenantCount, existingRows, status, isCommercial)\<close>. The
  last branch returns the rows it was given; no value of the closed type reaches it.
\<close>

definition autoSetUsageStatus ::
  "int \<Rightarrow> int \<Rightarrow> LeaseRow list \<Rightarrow> OccupancyStatus \<Rightarrow> bool \<Rightarrow> LeaseRow list" where
  "autoSetUsageStatus totalC tenantC existingRows st com =
     (if st = Residence \<or> st = SelfUse then
        (let rowCount = max (max totalC tenantC) 1
         in for_loop (residence_row com) rowCount 0 [])
      else if st = Rent then
        (let rowCount = max (max totalC tenantC) 1
         in for_loop (rent_row tenantC existingRows) rowCount 0 [])
      else if st = Both then
        (let availableCount = totalC - 1;
             rentCount = max availableCount tenantC;
             newRows = for_loop (both_row tenantC existingRows com) rentCount 0 []
         in newRows @ [owner_row rentCount com])
      else existingRows)"

section \<open>The state container\<close>

text \<open>
  \<^verbatim>\<open>useOccupancySection({ type, initialStatus })\<close> keeps the active status and one
  \<^verbatim>\<open>SectionInfo\<close> per status in two \<^verbatim>\<open>useState\<close> cells; \<^verbatim>\<open>isCommercial\<close> is computed from
  the \<^verbatim>\<open>type\<close> property on every render. The property \<^verbatim>\<open>initialUsage\<close> is never read.
\<close>

datatype section_type = Residential | Commercial

datatype error = TypeError

record section_state =
  sectionType :: section_type
  status :: OccupancyStatus
  info :: "OccupancyStatus \<rightharpoonup> SectionInfo"

definition isCommercial :: "section_state \<Rightarrow> bool" where
  "isCommercial s = (sectionType s = Commercial)"

text \<open>The string that a status is in the source.\<close>

fun status_name :: "OccupancyStatus \<Rightarrow> string" where
  "status_name Residence = ''residence''"
| "status_name Rent = ''rent''"
| "status_name Both = ''both''"
| "status_name SelfUse = ''self-use''"

text \<open>The constant \<^verbatim>\<open>statuses\<close> of \<^verbatim>\<open>createInitialInfoState\<close>.\<close>

definition statuses_for :: "section_type \<Rightarrow> OccupancyStatus list" where
  "statuses_for ty = (if ty = Commercial then [SelfUse, Rent, Both] else [Residence, Rent, Both])"

text \<open>\<^verbatim>\<open>Object.fromEntries\<close>: a later entry replaces an earlier one with the same key.\<close>

definition fromEntries :: "('k \<times> 'v) list \<Rightarrow> ('k \<rightharpoonup> 'v)" where
  "fromEntries entries = foldl (\<lambda>m (k, v). m(k \<mapsto> v)) Map.empty entries"

definition createInitialInfoState :: "section_type \<Rightarrow> (OccupancyStatus \<rightharpoonup> SectionInfo)" where
  "createInitialInfoState ty =
     fromEntries (map (\<lambda>st. (st,
         \<lparr>totalCount = ''1'',
          tenantCount = ''0'',
          leaseRows = [\<lparr>id_row = ''1'', usage = status_name st, deposit = [], rent = [],
                        businessRegistration = None\<rparr>]\<rparr>))
       (statuses_for ty))"

definition useOccupancySection :: "section_type \<Rightarrow> OccupancyStatus \<Rightarrow> section_state" where
  "useOccupancySection ty initialStatus =
     \<lparr>sectionType = ty, status = initialStatus, info = createInitialInfoState ty\<rparr>"

subsection \<open>The handlers\<close>

text \<open>
  Each handler reads \<^verbatim>\<open>info[key]\<close> or \<^verbatim>\<open>prev[key]\<close> and then a field of it; where the object
  has no entry for the key that read throws, which is the result \<open>Inl TypeError\<close>.
\<close>

definition handleStatusChange :: "section_state \<Rightarrow> OccupancyStatus \<Rightarrow> error + section_state" where
  "handleStatusChange s newStatus =
     (case info s newStatus of
        None \<Rightarrow> Inl TypeError
      | Some currentInfo \<Rightarrow>
          (let newRows = autoSetUsageStatus
                 (max (Number_or_0 (totalCount currentInfo)) 1)
                 (Number_or_0 (tenantCount currentInfo))
                 (leaseRows currentInfo)
                 newStatus
                 (isCommercial s)
           in Inr (s\<lparr>status := newStatus,
                     info := (info s)(newStatus \<mapsto> currentInfo\<lparr>leaseRows := newRows\<rparr>)\<rparr>)))"

definition handleTotalCountChange :: "section_state \<Rightarrow> string \<Rightarrow> error + section_state" where
  "handleTotalCountChange s v =
     (let digits = onlyNumbers v;
          newRowCount = max (Number_or_0 digits) 1
      in case info s (status s) of
           None \<Rightarrow> Inl TypeError
         | Some currentInfo \<Rightarrow>
             (let newRows = autoSetUsageStatus
                    newRowCount
                    (Number_or_0 (tenantCount currentInfo))
                    (leaseRows currentInfo)
                    (status s)
                    (isCommercial s)
              in Inr (s\<lparr>info := (info s)(status s \<mapsto>
                          currentInfo\<lparr>totalCount := digits, leaseRows := newRows\<rparr>)\<rparr>)))"

definition handleTotalCountBlur :: "section_state \<Rightarrow> error + section_state" where
  "handleTotalCountBlur s =
     (case info s (status s) of
        None \<Rightarrow> Inl TypeError
      | Some currentInfo \<Rightarrow>
          (let num = Number (totalCount currentInfo)
           in if totalCount currentInfo = [] \<or> (case num of None \<Rightarrow> False | Some n \<Rightarrow> n < 1)
              then Inr (s\<lparr>info := (info s)(status s \<mapsto> currentInfo\<lparr>totalCount := ''1''\<rparr>)\<rparr>)
              else Inr s))"

definition handleTenantCountChange :: "section_state \<Rightarrow> string \<Rightarrow> error + section_state" where
  "handleTenantCountChange s v =
     (let digits = onlyNumbers v;
          newTenantCount = Number_or_0 digits
      in case info s (status s) of
           None \<Rightarrow> Inl TypeError
         | Some currentInfo \<Rightarrow>
             (let newRows = autoSetUsageStatus
                    (Number_or_0 (totalCount currentInfo))
                    newTenantCount
                    (leaseRows currentInfo)
                    (status s)
                    (isCommercial s)
              in Inr (s\<lparr>info := (info s)(status s \<mapsto>
                          currentInfo\<lparr>tenantCount := digits, leaseRows := newRows\<rparr>)\<rparr>)))"

definition handleTenantCountBlur :: "section_state \<Rightarrow> error + section_state" where
  "handleTenantCountBlur s =
     (case info s (status s) of
        None \<Rightarrow> Inl TypeError
      | Some currentInfo \<Rightarrow>
          (if tenantCount currentInfo = []
           then Inr (s\<lparr>info := (info s)(status s \<mapsto> currentInfo\<lparr>tenantCount := ''0''\<rparr>)\<rparr>)
           else Inr s))"

definition handleRowUsageChange ::
  "section_state \<Rightarrow> string \<Rightarrow> string \<Rightarrow> error + section_state" where
  "handleRowUsageChange s rowId newUsage =
     (case info s (status s) of
        None \<Rightarrow> Inl TypeError
      | Some prevInfo \<Rightarrow>
          Inr (s\<lparr>info := (info s)(status s \<mapsto> prevInfo\<lparr>leaseRows :=
                 map (\<lambda>r. if id_row r = rowId
                           then r\<lparr>usage := newUsage,
                                  deposit := (if newUsage = usage_rented then deposit r else []),
                                  rent := (if newUsage = usage_rented then rent r else [])\<rparr>
                           else r)
                     (leaseRows prevInfo)\<rparr>)\<rparr>))"

definition handleRowDepositChange ::
  "section_state \<Rightarrow> string \<Rightarrow> string \<Rightarrow> error + section_state" where
  "handleRowDepositChange s rowId v =
     (let digits = onlyNumbers v
      in case info s (status s) of
           None \<Rightarrow> Inl TypeError
         | Some prevInfo \<Rightarrow>
             Inr (s\<lparr>info := (info s)(status s \<mapsto> prevInfo\<lparr>leaseRows :=
                    map (\<lambda>r. if id_row r = rowId then r\<lparr>deposit := digits\<rparr> else r)
                        (leaseRows prevInfo)\<rparr>)\<rparr>))"

definition handleRowRentChange ::
  "section_state \<Rightarrow> string \<Rightarrow> string \<Rightarrow> error + section_state" where
  "handleRowRentChange s rowId v =
     (let digits = onlyNumbers v
      in case info s (status s) of
           None \<Rightarrow> Inl TypeError
         | Some prevInfo \<Rightarrow>
             Inr (s\<lparr>info := (info s)(status s \<mapsto> prevInfo\<lparr>leaseRows :=
                    map (\<lambda>r. if id_row r = rowId then r\<lparr>rent := digits\<rparr> else r)
                        (leaseRows prevInfo)\<rparr>)\<rparr>))"

definition handleRowBusinessRegistrationChange ::
  "section_state \<Rightarrow> string \<Rightarrow> string \<Rightarrow> error + section_state" where
  "handleRowBusinessRegistrationChange s rowId v =
     (case info s (status s) of
        None \<Rightarrow> Inl TypeError
      | Some prevInfo \<Rightarrow>
          Inr (s\<lparr>info := (info s)(status s \<mapsto> prevInfo\<lparr>leaseRows :=
                 map (\<lambda>r. if id_row r = rowId then r\<lparr>businessRegistration := Some v\<rparr> else r)
                     (leaseRows prevInfo)\<rparr>)\<rparr>))"

subsection \<open>Mutator invocations\<close>

text \<open>One invocation of a mutator, under the name the specification gives it.\<close>

datatype mutator =
    ChangeStatus OccupancyStatus
  | ChangeTotalCount string
  | CommitTotalCount
  | ChangeTenantCount string
  | CommitTenantCount
  | ChangeRowUsage string string
  | ChangeRowDeposit string string
  | ChangeRowRent string string
  | ChangeRowBusinessRegistration string string

fun apply_mutator :: "section_state \<Rightarrow> mutator \<Rightarrow> error + section_state" where
  "apply_mutator s (ChangeStatus newStatus) = handleStatusChange s newStatus"
| "apply_mutator s (ChangeTotalCount v) = handleTotalCountChange s v"
| "apply_mutator s CommitTotalCount = handleTotalCountBlur s"
| "apply_mutator s (ChangeTenantCount v) = handleTenantCountChange s v"
| "apply_mutator s CommitTenantCount = handleTenantCountBlur s"
| "apply_mutator s (ChangeRowUsage rowId newUsage) = handleRowUsageChange s rowId newUsage"
| "apply_mutator s (ChangeRowDeposit rowId v) = handleRowDepositChange s rowId v"
| "apply_mutator s (ChangeRowRent rowId v) = handleRowRentChange s rowId v"
| "apply_mutator s (ChangeRowBusinessRegistration rowId v) =
     handleRowBusinessRegistrationChange s rowId v"

text \<open>The status whose entry an invocation writes.\<close>

fun addressed :: "section_state \<Rightarrow> mutator \<Rightarrow> OccupancyStatus" where
  "addressed s (ChangeStatus newStatus) = newStatus"
| "addressed s m = status s"

text \<open>The statuses that a section of a category has an entry for.\<close>

definition applicable :: "section_state \<Rightarrow> OccupancyStatus \<Rightarrow> bool" where
  "applicable s k = (k \<in> set (statuses_for (sectionType s)))"

text \<open>An invocation whose status argument, if it has one, is applicable to the section.\<close>

fun applicable_input :: "section_state \<Rightarrow> mutator \<Rightarrow> bool" where
  "applicable_input s (ChangeStatus newStatus) = applicable s newStatus"
| "applicable_input s m = True"

subsection \<open>Well-formed and reachable states\<close>

definition digits_only :: "string \<Rightarrow> bool" where
  "digits_only v = list_all is_digit v"

definition positional_ids :: "LeaseRow list \<Rightarrow> bool" where
  "positional_ids rows =
     (map id_row rows = map (\<lambda>i. String_num (int i + 1)) [0..<length rows])"

text \<open>
  A well-formed \<^verbatim>\<open>SectionInfo\<close>: both counts are strings of digits (possibly empty, while the
  user types), there is at least one row, the ids of the rows are their 1-based positions, and
  every deposit and rent is a string of digits.
\<close>

definition wf_info :: "SectionInfo \<Rightarrow> bool" where
  "wf_info si =
     (digits_only (totalCount si) \<and> digits_only (tenantCount si)
      \<and> leaseRows si \<noteq> [] \<and> positional_ids (leaseRows si)
      \<and> list_all (\<lambda>r. digits_only (deposit r) \<and> digits_only (rent r)) (leaseRows si))"

text \<open>
  A well-formed state: the active status is applicable to the category, and the record has a
  well-formed entry for exactly the applicable statuses.
\<close>

definition wf_state :: "section_state \<Rightarrow> bool" where
  "wf_state s =
     (applicable s (status s)
      \<and> list_all (\<lambda>k. case info s k of
                        None \<Rightarrow> \<not> applicable s k
                      | Some si \<Rightarrow> applicable s k \<and> wf_info si)
          [Residence, Rent, Both, SelfUse])"

text \<open>
  The states a container can be in: it is constructed with an initial status that is applicable
  to its category, and every later state is the result of a mutator that returned.
\<close>

inductive reachable :: "section_state \<Rightarrow> bool" where
  reachable_init:
    "initialStatus \<in> set (statuses_for ty) \<Longrightarrow> reachable (useOccupancySection ty initialStatus)"
| reachable_step:
    "reachable s \<Longrightarrow> apply_mutator s m = Inr s' \<Longrightarrow> reachable s'"

subsection \<open>Counts within a limit\<close>

text \<open>
  The derivation builds one row per unit of the count it is given, in an array. The model has
  exact integers and lists of any length; the engine has neither. A JavaScript array has at
  most \<open>2^32 - 1\<close> elements (one more \<^verbatim>\<open>push\<close> throws), the engine's memory may end well before
  that, and \<^verbatim>\<open>Number\<close> is exact only below \<open>2^53\<close>. What the model says about a handler is
  therefore meant for counts up to a limit \<open>L\<close> of rows that the engine can hold.
\<close>

definition max_array_length :: int where
  "max_array_length = 2 ^ 32 - 1"

text \<open>The count that an invocation asks rows for: the number that the digits of its argument
  denote, for the two mutators that take a count.\<close>

fun requested_count :: "mutator \<Rightarrow> int" where
  "requested_count (ChangeTotalCount v) = Number_or_0 (onlyNumbers v)"
| "requested_count (ChangeTenantCount v) = Number_or_0 (onlyNumbers v)"
| "requested_count m = 0"

text \<open>An entry whose stored counts are at most \<open>L\<close> and that has at most \<open>L + 1\<close> rows.\<close>

definition info_within :: "int \<Rightarrow> SectionInfo \<Rightarrow> bool" where
  "info_within L si =
     (Number_or_0 (totalCount si) \<le> L \<and> Number_or_0 (tenantCount si) \<le> L
      \<and> int (length (leaseRows si)) \<le> L + 1)"

definition within_limit :: "int \<Rightarrow> section_state \<Rightarrow> bool" where
  "within_limit L s =
     list_all (\<lambda>k. case info s k of None \<Rightarrow> True | Some si \<Rightarrow> info_within L si)
       [Residence, Rent, Both, SelfUse]"

text \<open>Every row list of the state fits an array.\<close>

definition rows_fit :: "section_state \<Rightarrow> bool" where
  "rows_fit s =
     list_all (\<lambda>k. case info s k of None \<Rightarrow> True
                    | Some si \<Rightarrow> int (length (leaseRows si)) \<le> max_array_length)
       [Residence, Rent, Both, SelfUse]"

text \<open>
  The states a container reaches when no invocation asks for a count above \<open>L\<close>.
\<close>

inductive reachable_within :: "int \<Rightarrow> section_state \<Rightarrow> bool" where
  reachable_within_init:
    "initialStatus \<in> set (statuses_for ty) \<Longrightarrow>
     reachable_within L (useOccupancySection ty initialStatus)"
| reachable_within_step:
    "reachable_within L s \<Longrightarrow> requested_count m \<le> L \<Longrightarrow> apply_mutator s m = Inr s' \<Longrightarrow>
     reachable_within L s'"

subsection \<open>Observations and runs\<close>

text \<open>The rows shown for the active status; none when the record has no entry for it.\<close>

definition activeRows :: "section_state \<Rightarrow> LeaseRow list" where
  "activeRows s = (case info s (status s) of None \<Rightarrow> [] | Some si \<Rightarrow> leaseRows si)"

text \<open>The entry of a status after a handler has run; none when the handler threw.\<close>

definition info_after :: "error + section_state \<Rightarrow> OccupancyStatus \<Rightarrow> SectionInfo option" where
  "info_after res k = (case res of Inl e \<Rightarrow> None | Inr s \<Rightarrow> info s k)"

text \<open>A sequence of invocations, one event after the other; it stops at the first throw.\<close>

fun run :: "section_state \<Rightarrow> mutator list \<Rightarrow> error + section_state" where
  "run s [] = Inr s"
| "run s (m # ms) = (case apply_mutator s m of Inl e \<Rightarrow> Inl e | Inr s' \<Rightarrow> run s' ms)"

text \<open>
  A residential section showing its rented status with two tenants, as it is after the user
  has typed a tenant count of 2 and a deposit and a rent for both rows.
\<close>

definition two_tenants :: section_state where
  "two_tenants =
     \<lparr>sectionType = Residential,
      status = Rent,
      info = (createInitialInfoState Residential)(Rent \<mapsto>
        \<lparr>totalCount = ''2'',
         tenantCount = ''2'',
         leaseRows =
           [\<lparr>id_row = ''1'', usage = usage_rented, deposit = ''500'', rent = ''30'',
               businessRegistration = None\<rparr>,
            \<lparr>id_row = ''2'', usage = usage_rented, deposit = ''700'', rent = ''40'',
               businessRegistration = None\<rparr>]\<rparr>)\<rparr>"

section \<open>Properties of the row-derivation function\<close>

subsection \<open>Decimal strings\<close>

lemma digit_cases: "d < 10 \<Longrightarrow> d \<in> {0, 1, 2, 3, 4, 5, 6, 7, 8, 9::nat}"
  by auto

lemma digit_val_digit_char: "d < 10 \<Longrightarrow> digit_val (digit_char d) = d"
  using digit_cases [of d] by (auto simp: digit_val_def digit_char_def)

lemma is_digit_digit_char: "d < 10 \<Longrightarrow> is_digit (digit_char d)"
  using digit_cases [of d] by (auto simp: is_digit_def digit_char_def)

lemma String_nat_digits: "list_all is_digit (String_nat n)"
proof (induction n rule: String_nat.induct)
  case (1 n)
  show ?case
  proof (cases "n < 10")
    case True
    then show ?thesis by (simp add: String_nat.simps [of n] is_digit_digit_char)
  next
    case False
    with 1 show ?thesis by (simp add: String_nat.simps [of n] is_digit_digit_char)
  qed
qed

lemma decimal_String_nat: "foldl (\<lambda>a c. 10 * a + digit_val c) 0 (String_nat n) = n"
proof (induction n rule: String_nat.induct)
  case (1 n)
  show ?case
  proof (cases "n < 10")
    case True
    then show ?thesis by (simp add: String_nat.simps [of n] digit_val_digit_char)
  next
    case False
    with 1 show ?thesis by (simp add: String_nat.simps [of n] digit_val_digit_char)
  qed
qed

lemma Number_String_nat: "Number (String_nat n) = Some (int n)"
  by (simp add: Number_def String_nat_digits decimal_String_nat)

lemma String_nat_inject: "String_nat m = String_nat n \<Longrightarrow> m = n"
  by (metis Number_String_nat option.inject of_nat_eq_iff)

lemma Number_String_num: "0 \<le> n \<Longrightarrow> Number (String_num n) = Some n"
  by (simp add: String_num_def Number_String_nat)

lemma String_nat_nonempty: "String_nat n \<noteq> []"
  by (simp add: String_nat.simps [of n])

subsection \<open>The loop\<close>

lemma for_loop_eq: "for_loop body n i newRows = newRows @ map body [i..<nat n]"
proof (induction body n i newRows rule: for_loop.induct)
  case (1 body n i newRows)
  show ?case
  proof (cases "int i < n")
    case True
    then have "i < nat n" by linarith
    then have "[i..<nat n] = i # [Suc i..<nat n]" by (rule upt_conv_Cons)
    with True 1 show ?thesis by (simp add: for_loop.simps [of body n i])
  next
    case False
    then have "nat n \<le> i" by linarith
    with False show ?thesis by (simp add: for_loop.simps [of body n i])
  qed
qed

lemma for_loop_from_0: "for_loop body n 0 [] = map body [0..<nat n]"
  by (simp add: for_loop_eq)

lemma usage_rented_neq_vacant: "usage_rented \<noteq> usage_vacant"
  by (simp add: usage_rented_def usage_vacant_def)

lemma field_or_empty_Some [simp]: "field_or_empty f (Some r) = f r"
  by (simp add: field_or_empty_def)

lemma field_or_empty_None [simp]: "field_or_empty f None = []"
  by (simp add: field_or_empty_def)

lemma autoSetUsageStatus_Rent:
  "autoSetUsageStatus totalC tenantC existingRows Rent com =
     map (rent_row tenantC existingRows) [0..<nat (max (max totalC tenantC) 1)]"
  by (simp add: autoSetUsageStatus_def for_loop_from_0)

lemma autoSetUsageStatus_Residence:
  "st = Residence \<or> st = SelfUse \<Longrightarrow>
   autoSetUsageStatus totalC tenantC existingRows st com =
     map (residence_row com) [0..<nat (max (max totalC tenantC) 1)]"
  by (simp add: autoSetUsageStatus_def for_loop_from_0)

lemma autoSetUsageStatus_Both:
  "autoSetUsageStatus totalC tenantC existingRows Both com =
     map (both_row tenantC existingRows com) [0..<nat (max (totalC - 1) tenantC)]
       @ [owner_row (max (totalC - 1) tenantC) com]"
  by (simp add: autoSetUsageStatus_def for_loop_from_0 Let_def)

subsection \<open>Rented sections\<close>

text \<open>
  C1. For the status \<^verbatim>\<open>'rent'\<close> the function returns exactly \<open>max(totalCount, tenantCount, 1)\<close>
  rows. The row at the 0-based index \<open>i\<close> carries the rented label if and only if
  \<open>i < tenantCount\<close>, and the vacant label otherwise. A rented row takes its deposit and its rent
  from \<open>existingRows[i]\<close> when that element exists and has empty strings otherwise; a vacant
  row has empty strings whatever \<open>existingRows[i]\<close> holds.
\<close>

theorem autoSetUsageStatus_rent_rows:
  "(let rows = autoSetUsageStatus totalC tenantC existingRows Rent com in
      length rows = nat (max (max totalC tenantC) 1)
    \<and> (\<forall>i < length rows.
          (usage (rows ! i) = usage_rented) = (int i < tenantC)
        \<and> (int i < tenantC \<longrightarrow>
              deposit (rows ! i)
                = (if i < length existingRows then deposit (existingRows ! i) else [])
            \<and> rent (rows ! i)
                = (if i < length existingRows then rent (existingRows ! i) else []))
        \<and> (\<not> int i < tenantC \<longrightarrow>
              usage (rows ! i) = usage_vacant \<and> deposit (rows ! i) = []
            \<and> rent (rows ! i) = [])))"
  unfolding autoSetUsageStatus_Rent Let_def
  by (simp add: rent_row_def index_opt_def usage_rented_neq_vacant
      usage_rented_neq_vacant [symmetric])

theorem autoSetUsageStatus_rent_rows_witness:
  "(let existingRows =
          [\<lparr>id_row = ''1'', usage = usage_rented, deposit = ''500'', rent = ''30'',
              businessRegistration = None\<rparr>,
           \<lparr>id_row = ''2'', usage = usage_rented, deposit = ''700'', rent = ''40'',
              businessRegistration = None\<rparr>];
        rows = autoSetUsageStatus 3 1 existingRows Rent False in
      length rows = 3
    \<and> (0::nat) < length rows \<and> int 0 < 1
    \<and> usage (rows ! 0) = usage_rented \<and> deposit (rows ! 0) = ''500'' \<and> rent (rows ! 0) = ''30''
    \<and> (1::nat) < length rows \<and> \<not> int 1 < 1
    \<and> usage (rows ! 1) = usage_vacant \<and> deposit (rows ! 1) = [] \<and> rent (rows ! 1) = []
    \<and> (2::nat) < length rows \<and> \<not> int 2 < 1
    \<and> usage (rows ! 2) = usage_vacant \<and> deposit (rows ! 2) = [] \<and> rent (rows ! 2) = [])"
proof -
  let ?ex = "[\<lparr>id_row = ''1'', usage = usage_rented, deposit = ''500'', rent = ''30'',
                businessRegistration = None\<rparr>,
              \<lparr>id_row = ''2'', usage = usage_rented, deposit = ''700'', rent = ''40'',
                businessRegistration = None\<rparr>]"
  let ?rows = "autoSetUsageStatus 3 1 ?ex Rent False"
  note t = autoSetUsageStatus_rent_rows [of 3 1 ?ex False, unfolded Let_def]
  from t have len: "length ?rows = 3" by simp
  from t have row: "(usage (?rows ! i) = usage_rented) = (int i < 1)
      \<and> (int i < 1 \<longrightarrow> deposit (?rows ! i) = (if i < length ?ex then deposit (?ex ! i) else [])
            \<and> rent (?rows ! i) = (if i < length ?ex then rent (?ex ! i) else []))
      \<and> (\<not> int i < 1 \<longrightarrow> usage (?rows ! i) = usage_vacant \<and> deposit (?rows ! i) = []
            \<and> rent (?rows ! i) = [])" if "i < length ?rows" for i
    using that by blast
  have r0: "(0::nat) < length ?rows" and r1: "(1::nat) < length ?rows"
    and r2: "(2::nat) < length ?rows"
    by (simp_all add: len)
  from len row [OF r0] row [OF r1] row [OF r2] show ?thesis
    by (simp add: Let_def del: length_greater_0_conv)
qed

subsection \<open>Owner-occupied sections\<close>

text \<open>
  C4. For the status \<^verbatim>\<open>'residence'\<close> or \<^verbatim>\<open>'self-use'\<close> the function returns exactly
  \<open>max(totalCount, tenantCount, 1)\<close> rows, each labeled as occupied (residential) or as
  directly used (commercial), each with an empty deposit and an empty rent (and, when commercial,
  an empty business registration); the result is the same whatever the existing rows are, so
  nothing is carried over from them. This holds for all integer counts, the non-negative ones
  included.
\<close>

theorem autoSetUsageStatus_residence_rows:
  "st = Residence \<or> st = SelfUse \<Longrightarrow>
   (let rows = autoSetUsageStatus totalC tenantC existingRows st com in
      length rows = nat (max (max totalC tenantC) 1)
    \<and> (\<forall>i < length rows.
          usage (rows ! i) = (if com then usage_direct else usage_residing)
        \<and> deposit (rows ! i) = []
        \<and> rent (rows ! i) = []
        \<and> businessRegistration (rows ! i) = (if com then Some [] else None))
    \<and> rows = autoSetUsageStatus totalC tenantC otherRows st com)"
  by (simp add: autoSetUsageStatus_Residence Let_def residence_row_def)

theorem autoSetUsageStatus_residence_rows_witness:
  "(let existingRows =
          [\<lparr>id_row = ''1'', usage = usage_rented, deposit = ''500'', rent = ''30'',
              businessRegistration = Some ''Y''\<rparr>];
        rows = autoSetUsageStatus 2 0 existingRows SelfUse True in
      (SelfUse = Residence \<or> SelfUse = SelfUse)
    \<and> length rows = 2
    \<and> (1::nat) < length rows
    \<and> usage (rows ! 1) = usage_direct \<and> deposit (rows ! 1) = [] \<and> rent (rows ! 1) = []
    \<and> businessRegistration (rows ! 1) = Some []
    \<and> usage (rows ! 0) = usage_direct \<and> deposit (rows ! 0) = [] \<and> rent (rows ! 0) = []
    \<and> businessRegistration (rows ! 0) = Some []
    \<and> rows = autoSetUsageStatus 2 0 [] SelfUse True)"
proof -
  let ?ex = "[\<lparr>id_row = ''1'', usage = usage_rented, deposit = ''500'', rent = ''30'',
                businessRegistration = Some ''Y''\<rparr>]"
  let ?rows = "autoSetUsageStatus 2 0 ?ex SelfUse True"
  have st: "SelfUse = Residence \<or> SelfUse = SelfUse" by simp
  note t = autoSetUsageStatus_residence_rows [OF st, of 2 0 ?ex True "[]", unfolded Let_def]
  from t have "length ?rows = nat (max (max 2 0) 1)" by (rule conjunct1)
  then have len: "length ?rows = 2" by simp
  from t have row: "usage (?rows ! i) = usage_direct \<and> deposit (?rows ! i) = []
      \<and> rent (?rows ! i) = [] \<and> businessRegistration (?rows ! i) = Some []"
    if "i < length ?rows" for i
    using that by auto
  from t have same: "?rows = autoSetUsageStatus 2 0 [] SelfUse True" by blast
  have r0: "(0::nat) < length ?rows" and r1: "(1::nat) < length ?rows"
    by (simp_all add: len)
  from len row [OF r0] row [OF r1] same show ?thesis
    by (simp add: Let_def del: length_greater_0_conv)
qed

subsection \<open>The category flag in rented sections\<close>

text \<open>
  C10. For the status \<^verbatim>\<open>'rent'\<close> the result does not depend on \<^verbatim>\<open>isCommercial\<close>: the rows
  derived for a commercial section are the rows derived for a residential one, and no row has a
  \<^verbatim>\<open>businessRegistration\<close> field.
\<close>

theorem autoSetUsageStatus_rent_ignores_category:
  "autoSetUsageStatus totalC tenantC existingRows Rent True
     = autoSetUsageStatus totalC tenantC existingRows Rent False
   \<and> (\<forall>r \<in> set (autoSetUsageStatus totalC tenantC existingRows Rent com).
         businessRegistration r = None)"
  by (simp add: autoSetUsageStatus_Rent rent_row_def Let_def)

theorem autoSetUsageStatus_rent_ignores_category_witness:
  "(let existingRows =
          [\<lparr>id_row = ''1'', usage = usage_rented, deposit = ''500'', rent = ''30'',
              businessRegistration = Some ''Y''\<rparr>];
        rows = autoSetUsageStatus 1 1 existingRows Rent True in
      rows = autoSetUsageStatus 1 1 existingRows Rent False
    \<and> rows ! 0 \<in> set rows
    \<and> businessRegistration (rows ! 0) = None)"
proof -
  let ?ex = "[\<lparr>id_row = ''1'', usage = usage_rented, deposit = ''500'', rent = ''30'',
                businessRegistration = Some ''Y''\<rparr>]"
  let ?rows = "autoSetUsageStatus 1 1 ?ex Rent True"
  note t = autoSetUsageStatus_rent_ignores_category [of 1 1 ?ex True]
  have len: "length ?rows = 1"
    by (simp add: autoSetUsageStatus_Rent)
  then have mem: "?rows ! 0 \<in> set ?rows" by simp
  from t mem have "businessRegistration (?rows ! 0) = None" by blast
  with t mem show ?thesis by (simp add: Let_def)
qed

lemma String_nat_digit: "n < 10 \<Longrightarrow> String_nat n = [digit_char n]"
  by (simp add: String_nat.simps [of n])

subsection \<open>Mixed sections\<close>

text \<open>
  C2, as the code has it. For the status \<^verbatim>\<open>'both'\<close> the function first generates
  \<open>max(totalCount - 1, tenantCount)\<close> rows of the rent block (none when that number is not
  positive). The row at index \<open>i\<close> has the id, the label, the deposit and the rent of the row
  that the \<^verbatim>\<open>'rent'\<close> case derives at index \<open>i\<close> (rented iff \<open>i < tenantCount\<close>, deposit and
  rent of a rented row copied from \<open>existingRows[i]\<close> when it exists, empty otherwise and for
  every vacant row). In a residential section it is that row. In a commercial section it
  carries a \<^verbatim>\<open>businessRegistration\<close> field besides, which the \<^verbatim>\<open>'rent'\<close> case never has: the
  registration of \<open>existingRows[i]\<close> when that row exists and has one, the empty string
  otherwise, for a vacant row as for a rented one. Then exactly one row follows, labeled as
  occupied (residential) or directly used (commercial), with an empty deposit and rent, an empty
  \<^verbatim>\<open>businessRegistration\<close> when commercial, and the id \<^verbatim>\<open>String(rentCount + 1)\<close>.
\<close>

theorem autoSetUsageStatus_both_rows:
  "(let rentCount = max (totalC - 1) tenantC;
        rows = autoSetUsageStatus totalC tenantC existingRows Both com;
        rentRows = autoSetUsageStatus (totalC - 1) tenantC existingRows Rent com in
      length rows = nat rentCount + 1
    \<and> (\<forall>i < nat rentCount.
          i < length rentRows
        \<and> rows ! i = (rentRows ! i)\<lparr>businessRegistration :=
              (if com
               then Some (if i < length existingRows
                          then (case businessRegistration (existingRows ! i) of
                                  None \<Rightarrow> [] | Some b \<Rightarrow> b)
                          else [])
               else None)\<rparr>
        \<and> businessRegistration (rentRows ! i) = None
        \<and> (usage (rows ! i) = usage_rented) = (int i < tenantC)
        \<and> (int i < tenantC \<longrightarrow>
              deposit (rows ! i)
                = (if i < length existingRows then deposit (existingRows ! i) else [])
            \<and> rent (rows ! i)
                = (if i < length existingRows then rent (existingRows ! i) else []))
        \<and> (\<not> int i < tenantC \<longrightarrow>
              usage (rows ! i) = usage_vacant \<and> deposit (rows ! i) = []
            \<and> rent (rows ! i) = []))
    \<and> rows ! nat rentCount =
          \<lparr>id_row = String_num (rentCount + 1),
           usage = (if com then usage_direct else usage_residence),
           deposit = [],
           rent = [],
           businessRegistration = (if com then Some [] else None)\<rparr>)"
proof -
  let ?rc = "max (totalC - 1) tenantC"
  let ?rows = "autoSetUsageStatus totalC tenantC existingRows Both com"
  let ?rentRows = "autoSetUsageStatus (totalC - 1) tenantC existingRows Rent com"
  have len: "length ?rows = nat ?rc + 1"
    by (simp add: autoSetUsageStatus_Both)
  have len_rent: "nat ?rc \<le> length ?rentRows"
    by (simp add: autoSetUsageStatus_Rent)
  have nth_both: "?rows ! i = both_row tenantC existingRows com i" if "i < nat ?rc" for i
    using that by (simp add: autoSetUsageStatus_Both nth_append)
  have nth_rent: "?rentRows ! i = rent_row tenantC existingRows i" if "i < nat ?rc" for i
  proof -
    from that len_rent have "i < nat (max (max (totalC - 1) tenantC) 1)"
      by (simp add: autoSetUsageStatus_Rent)
    then show ?thesis
      by (simp add: autoSetUsageStatus_Rent del: upt_Suc)
  qed
  have block: "i < length ?rentRows
      \<and> ?rows ! i = (?rentRows ! i)\<lparr>businessRegistration :=
            (if com
             then Some (if i < length existingRows
                        then (case businessRegistration (existingRows ! i) of
                                None \<Rightarrow> [] | Some b \<Rightarrow> b)
                        else [])
             else None)\<rparr>
      \<and> businessRegistration (?rentRows ! i) = None
      \<and> (usage (?rows ! i) = usage_rented) = (int i < tenantC)
      \<and> (int i < tenantC \<longrightarrow>
            deposit (?rows ! i)
              = (if i < length existingRows then deposit (existingRows ! i) else [])
          \<and> rent (?rows ! i)
              = (if i < length existingRows then rent (existingRows ! i) else []))
      \<and> (\<not> int i < tenantC \<longrightarrow>
            usage (?rows ! i) = usage_vacant \<and> deposit (?rows ! i) = []
          \<and> rent (?rows ! i) = [])" if "i < nat ?rc" for i
  proof -
    from that len_rent have "i < length ?rentRows" by simp
    then show ?thesis
      unfolding nth_both [OF that] nth_rent [OF that]
      by (simp add: both_row_def rent_row_def index_opt_def Let_def registration_or_empty_def
          usage_rented_neq_vacant usage_rented_neq_vacant [symmetric] split: option.splits)
  qed
  have final: "?rows ! nat ?rc = owner_row ?rc com"
    by (simp add: autoSetUsageStatus_Both nth_append)
  from len block final show ?thesis
    unfolding Let_def owner_row_def by blast
qed

theorem autoSetUsageStatus_both_rows_witness:
  "(let existingRows =
          [\<lparr>id_row = ''1'', usage = usage_rented, deposit = ''500'', rent = ''30'',
              businessRegistration = Some ''Y''\<rparr>,
           \<lparr>id_row = ''2'', usage = usage_rented, deposit = ''700'', rent = ''40'',
              businessRegistration = Some ''N''\<rparr>];
        rows = autoSetUsageStatus 3 1 existingRows Both True in
      length rows = 3
    \<and> (0::nat) < nat (max (3 - 1) 1) \<and> int 0 < 1
    \<and> rows ! 0 = \<lparr>id_row = ''1'', usage = usage_rented, deposit = ''500'', rent = ''30'',
                    businessRegistration = Some ''Y''\<rparr>
    \<and> (1::nat) < nat (max (3 - 1) 1) \<and> \<not> int 1 < 1
    \<and> rows ! 1 = \<lparr>id_row = ''2'', usage = usage_vacant, deposit = [], rent = [],
                    businessRegistration = Some ''N''\<rparr>
    \<and> rows ! 2 = \<lparr>id_row = ''3'', usage = usage_direct, deposit = [], rent = [],
                    businessRegistration = Some []\<rparr>)"
proof -
  let ?ex = "[\<lparr>id_row = ''1'', usage = usage_rented, deposit = ''500'', rent = ''30'',
                businessRegistration = Some ''Y''\<rparr>,
              \<lparr>id_row = ''2'', usage = usage_rented, deposit = ''700'', rent = ''40'',
                businessRegistration = Some ''N''\<rparr>]"
  let ?rows = "autoSetUsageStatus 3 1 ?ex Both True"
  let ?rentRows = "autoSetUsageStatus (3 - 1) 1 ?ex Rent True"
  note t = autoSetUsageStatus_both_rows [of 3 1 ?ex True, unfolded Let_def]
  from t have "length ?rows = nat (max (3 - 1) 1) + 1" by (rule conjunct1)
  then have len: "length ?rows = 3" by simp
  from t have row: "?rows ! i = (?rentRows ! i)\<lparr>businessRegistration :=
            (if True
             then Some (if i < length ?ex
                        then (case businessRegistration (?ex ! i) of None \<Rightarrow> [] | Some b \<Rightarrow> b)
                        else [])
             else None)\<rparr>" if "i < nat (max (3 - 1) 1)" for i
    using that by blast
  have rent_rows: "?rentRows =
      [\<lparr>id_row = ''1'', usage = usage_rented, deposit = ''500'', rent = ''30'',
          businessRegistration = None\<rparr>,
       \<lparr>id_row = ''2'', usage = usage_vacant, deposit = [], rent = [],
          businessRegistration = None\<rparr>]"
    by (simp add: autoSetUsageStatus_Rent rent_row_def index_opt_def Let_def numeral_2_eq_2
        String_num_def String_nat_digit digit_char_def usage_rented_neq_vacant [symmetric])
  from t have "?rows ! nat (max (3 - 1) 1) =
      \<lparr>id_row = String_num (max (3 - 1) 1 + 1), usage = (if True then usage_direct else usage_residence),
       deposit = [], rent = [], businessRegistration = (if True then Some [] else None)\<rparr>"
    by blast
  then have final: "?rows ! 2 = \<lparr>id_row = ''3'', usage = usage_direct, deposit = [], rent = [],
      businessRegistration = Some []\<rparr>"
    by (simp add: String_num_def String_nat_digit digit_char_def)
  have r0: "(0::nat) < nat (max (3 - 1) 1)" and r1: "(1::nat) < nat (max (3 - 1) 1)"
    by simp_all
  from row [OF r0] have row0: "?rows ! 0 =
      \<lparr>id_row = ''1'', usage = usage_rented, deposit = ''500'', rent = ''30'',
        businessRegistration = Some ''Y''\<rparr>"
    unfolding rent_rows by simp
  from row [OF r1] have row1: "?rows ! 1 =
      \<lparr>id_row = ''2'', usage = usage_vacant, deposit = [], rent = [],
        businessRegistration = Some ''N''\<rparr>"
    unfolding rent_rows by simp
  from len row0 row1 final show ?thesis
    by (simp add: Let_def)
qed

text \<open>
  C2, as the specification has it, fails in a commercial section: the rows of the rent block
  are not the rows of the \<^verbatim>\<open>'rent'\<close> case. With one tenant and a total count of 3 the second
  row becomes vacant and loses its deposit and its rent, as in the \<^verbatim>\<open>'rent'\<close> case, yet it
  keeps the registration \<open>N\<close> of the existing row, a field that no row of the \<^verbatim>\<open>'rent'\<close> case
  has, whether that case is given the same total count or one less.
\<close>

theorem autoSetUsageStatus_both_keeps_registration:
  "autoSetUsageStatus 3 1
       [\<lparr>id_row = ''1'', usage = usage_rented, deposit = ''500'', rent = ''30'',
           businessRegistration = Some ''Y''\<rparr>,
        \<lparr>id_row = ''2'', usage = usage_rented, deposit = ''700'', rent = ''40'',
           businessRegistration = Some ''N''\<rparr>] Both True
     = [\<lparr>id_row = ''1'', usage = usage_rented, deposit = ''500'', rent = ''30'',
           businessRegistration = Some ''Y''\<rparr>,
        \<lparr>id_row = ''2'', usage = usage_vacant, deposit = [], rent = [],
           businessRegistration = Some ''N''\<rparr>,
        \<lparr>id_row = ''3'', usage = usage_direct, deposit = [], rent = [],
           businessRegistration = Some []\<rparr>]
   \<and> autoSetUsageStatus 3 1
       [\<lparr>id_row = ''1'', usage = usage_rented, deposit = ''500'', rent = ''30'',
           businessRegistration = Some ''Y''\<rparr>,
        \<lparr>id_row = ''2'', usage = usage_rented, deposit = ''700'', rent = ''40'',
           businessRegistration = Some ''N''\<rparr>] Rent True
     = [\<lparr>id_row = ''1'', usage = usage_rented, deposit = ''500'', rent = ''30'',
           businessRegistration = None\<rparr>,
        \<lparr>id_row = ''2'', usage = usage_vacant, deposit = [], rent = [],
           businessRegistration = None\<rparr>,
        \<lparr>id_row = ''3'', usage = usage_vacant, deposit = [], rent = [],
           businessRegistration = None\<rparr>]
   \<and> autoSetUsageStatus (3 - 1) 1
       [\<lparr>id_row = ''1'', usage = usage_rented, deposit = ''500'', rent = ''30'',
           businessRegistration = Some ''Y''\<rparr>,
        \<lparr>id_row = ''2'', usage = usage_rented, deposit = ''700'', rent = ''40'',
           businessRegistration = Some ''N''\<rparr>] Rent True
     = [\<lparr>id_row = ''1'', usage = usage_rented, deposit = ''500'', rent = ''30'',
           businessRegistration = None\<rparr>,
        \<lparr>id_row = ''2'', usage = usage_vacant, deposit = [], rent = [],
           businessRegistration = None\<rparr>]
   \<and> take 2 (autoSetUsageStatus 3 1
       [\<lparr>id_row = ''1'', usage = usage_rented, deposit = ''500'', rent = ''30'',
           businessRegistration = Some ''Y''\<rparr>,
        \<lparr>id_row = ''2'', usage = usage_rented, deposit = ''700'', rent = ''40'',
           businessRegistration = Some ''N''\<rparr>] Both True)
     \<noteq> take 2 (autoSetUsageStatus 3 1
       [\<lparr>id_row = ''1'', usage = usage_rented, deposit = ''500'', rent = ''30'',
           businessRegistration = Some ''Y''\<rparr>,
        \<lparr>id_row = ''2'', usage = usage_rented, deposit = ''700'', rent = ''40'',
           businessRegistration = Some ''N''\<rparr>] Rent True)"
  by (simp add: autoSetUsageStatus_Rent autoSetUsageStatus_Both rent_row_def both_row_def
      owner_row_def index_opt_def registration_or_empty_def Let_def numeral_2_eq_2
      numeral_3_eq_3 String_num_def String_nat_digit digit_char_def
      usage_rented_neq_vacant [symmetric])

subsection \<open>Row ids\<close>

text \<open>
  C8. For every status and all counts of the contract (a tenant count that is not negative;
  the total count may be any integer), the row at every 0-based position \<open>i\<close> of the result has
  the id \<^verbatim>\<open>String(i + 1)\<close>, the decimal string of \<open>i + 1\<close>: a string that \<^verbatim>\<open>Number\<close> reads back as
  \<open>i + 1\<close>. The ids of the existing rows play no part.
\<close>

theorem autoSetUsageStatus_ids_positional:
  "0 \<le> tenantC \<Longrightarrow>
   (let rows = autoSetUsageStatus totalC tenantC existingRows st com in
      \<forall>i < length rows.
         id_row (rows ! i) = String_num (int i + 1)
       \<and> Number (id_row (rows ! i)) = Some (int i + 1))"
proof -
  assume tenant: "0 \<le> tenantC"
  let ?rows = "autoSetUsageStatus totalC tenantC existingRows st com"
  have ids: "id_row (?rows ! i) = String_num (int i + 1)" if "i < length ?rows" for i
  proof (cases st)
    case Residence
    with that show ?thesis
      by (simp add: autoSetUsageStatus_Residence residence_row_def)
  next
    case SelfUse
    with that show ?thesis
      by (simp add: autoSetUsageStatus_Residence residence_row_def)
  next
    case Rent
    with that show ?thesis
      by (simp add: autoSetUsageStatus_Rent rent_row_def Let_def)
  next
    case Both
    from tenant have "0 \<le> max (totalC - 1) tenantC" by simp
    then have "int (nat (max (totalC - 1) tenantC)) = max (totalC - 1) tenantC" by simp
    with that Both show ?thesis
      by (auto simp add: autoSetUsageStatus_Both both_row_def owner_row_def Let_def nth_append
          less_Suc_eq)
  qed
  then show ?thesis
    by (simp add: Let_def Number_String_num)
qed

theorem autoSetUsageStatus_ids_positional_witness:
  "(let existingRows =
          [\<lparr>id_row = ''7'', usage = usage_rented, deposit = ''500'', rent = ''30'',
              businessRegistration = None\<rparr>];
        rows = autoSetUsageStatus 0 0 existingRows Both False in
      (0::int) \<le> 0 \<and> (0::nat) < length rows \<and> id_row (rows ! 0) = ''1''
    \<and> Number (id_row (rows ! 0)) = Some 1)"
proof -
  let ?ex = "[\<lparr>id_row = ''7'', usage = usage_rented, deposit = ''500'', rent = ''30'',
                businessRegistration = None\<rparr>]"
  let ?rows = "autoSetUsageStatus 0 0 ?ex Both False"
  have h: "(0::int) \<le> 0" by simp
  note t = autoSetUsageStatus_ids_positional [OF h, of 0 ?ex Both False, unfolded Let_def]
  have r0: "(0::nat) < length ?rows"
    by (simp add: autoSetUsageStatus_Both)
  from t r0 have "id_row (?rows ! 0) = String_num (int 0 + 1)
      \<and> Number (id_row (?rows ! 0)) = Some (int 0 + 1)"
    by blast
  then have "id_row (?rows ! 0) = ''1'' \<and> Number (id_row (?rows ! 0)) = Some 1"
    by (simp add: String_num_def String_nat_digit digit_char_def Number_def is_digit_def
        digit_val_def)
  with h r0 show ?thesis
    unfolding Let_def by blast
qed

section \<open>Properties of the state container\<close>

subsection \<open>Initial entries and row ids\<close>

lemma createInitialInfoState_apply:
  "createInitialInfoState ty k =
     (if k \<in> set (statuses_for ty)
      then Some \<lparr>totalCount = ''1'', tenantCount = ''0'',
                 leaseRows = [\<lparr>id_row = ''1'', usage = status_name k, deposit = [], rent = [],
                               businessRegistration = None\<rparr>]\<rparr>
      else None)"
  by (cases ty; cases k) (simp_all add: createInitialInfoState_def fromEntries_def statuses_for_def)

lemma String_nat_inj_on_ids:
  "String_num (int i + 1) = String_num (int j + 1) \<Longrightarrow> i = j"
proof -
  assume "String_num (int i + 1) = String_num (int j + 1)"
  then have "String_nat (nat (int i + 1)) = String_nat (nat (int j + 1))"
    by (simp add: String_num_def)
  then have "nat (int i + 1) = nat (int j + 1)" by (rule String_nat_inject)
  then show "i = j" by simp
qed

lemma positional_ids_nth:
  "positional_ids rows \<Longrightarrow> i < length rows \<Longrightarrow> id_row (rows ! i) = String_num (int i + 1)"
proof -
  assume p: "positional_ids rows" and i: "i < length rows"
  from i have "id_row (rows ! i) = map id_row rows ! i" by simp
  also from p have "\<dots> = map (\<lambda>i. String_num (int i + 1)) [0..<length rows] ! i"
    by (simp add: positional_ids_def)
  also from i have "\<dots> = String_num (int i + 1)" by simp
  finally show ?thesis .
qed

lemma positional_ids_unique:
  "positional_ids rows \<Longrightarrow> i < length rows \<Longrightarrow> j < length rows \<Longrightarrow>
   id_row (rows ! i) = id_row (rows ! j) \<Longrightarrow> i = j"
  by (simp add: positional_ids_nth String_nat_inj_on_ids)

subsection \<open>Editing the usage of one row\<close>

text \<open>
  C6. Where the record has an entry for the active status, \<^verbatim>\<open>changeRowUsage(rowId, newLabel)\<close>
  returns; it keeps the active status, every other status's entry, both counts of the active
  entry and the length of its row list. At every position the new row is the old one when the
  old row's id is not \<open>rowId\<close>; when it is, the new row is the old one with the new label, its
  deposit and rent kept if the new label is the rented label and emptied otherwise. Where the
  ids are positional, as they are in every state the container reaches, at most one row has the
  id \<open>rowId\<close>.
\<close>

theorem handleRowUsageChange_one_row:
  "info s (status s) = Some cur \<Longrightarrow>
   (\<exists>s' cur'.
      handleRowUsageChange s rowId newUsage = Inr s'
    \<and> status s' = status s
    \<and> (\<forall>k. k \<noteq> status s \<longrightarrow> info s' k = info s k)
    \<and> info s' (status s) = Some cur'
    \<and> totalCount cur' = totalCount cur
    \<and> tenantCount cur' = tenantCount cur
    \<and> length (leaseRows cur') = length (leaseRows cur)
    \<and> (\<forall>i < length (leaseRows cur).
          leaseRows cur' ! i =
            (if id_row (leaseRows cur ! i) = rowId
             then (leaseRows cur ! i)
                    \<lparr>usage := newUsage,
                     deposit := (if newUsage = usage_rented then deposit (leaseRows cur ! i) else []),
                     rent := (if newUsage = usage_rented then rent (leaseRows cur ! i) else [])\<rparr>
             else leaseRows cur ! i))
    \<and> (positional_ids (leaseRows cur) \<longrightarrow>
          (\<forall>i < length (leaseRows cur). \<forall>j < length (leaseRows cur).
             id_row (leaseRows cur ! i) = rowId \<and> id_row (leaseRows cur ! j) = rowId \<longrightarrow> i = j)))"
proof -
  assume cur: "info s (status s) = Some cur"
  have uniq: "positional_ids (leaseRows cur) \<longrightarrow>
      (\<forall>i < length (leaseRows cur). \<forall>j < length (leaseRows cur).
         id_row (leaseRows cur ! i) = rowId \<and> id_row (leaseRows cur ! j) = rowId \<longrightarrow> i = j)"
    using positional_ids_unique [of "leaseRows cur"] by simp
  from cur uniq show ?thesis
    by (simp add: handleRowUsageChange_def)
qed

theorem handleRowUsageChange_one_row_witness:
  "info two_tenants (status two_tenants) =
     Some \<lparr>totalCount = ''2'', tenantCount = ''2'',
           leaseRows =
             [\<lparr>id_row = ''1'', usage = usage_rented, deposit = ''500'', rent = ''30'',
                 businessRegistration = None\<rparr>,
              \<lparr>id_row = ''2'', usage = usage_rented, deposit = ''700'', rent = ''40'',
                 businessRegistration = None\<rparr>]\<rparr>
   \<and> positional_ids (activeRows two_tenants)
   \<and> info_after (handleRowUsageChange two_tenants ''2'' usage_vacant) Rent =
       Some \<lparr>totalCount = ''2'', tenantCount = ''2'',
             leaseRows =
               [\<lparr>id_row = ''1'', usage = usage_rented, deposit = ''500'', rent = ''30'',
                   businessRegistration = None\<rparr>,
                \<lparr>id_row = ''2'', usage = usage_vacant, deposit = [], rent = [],
                   businessRegistration = None\<rparr>]\<rparr>
   \<and> info_after (handleRowUsageChange two_tenants ''2'' usage_vacant) Both =
       info two_tenants Both"
proof -
  let ?r1 = "\<lparr>id_row = ''1'', usage = usage_rented, deposit = ''500'', rent = ''30'',
               businessRegistration = None\<rparr>"
  let ?r2 = "\<lparr>id_row = ''2'', usage = usage_rented, deposit = ''700'', rent = ''40'',
               businessRegistration = None\<rparr>"
  let ?cur = "\<lparr>totalCount = ''2'', tenantCount = ''2'', leaseRows = [?r1, ?r2]\<rparr>"
  have cur: "info two_tenants (status two_tenants) = Some ?cur"
    by (simp add: two_tenants_def)
  have act: "activeRows two_tenants = [?r1, ?r2]"
    by (simp add: activeRows_def cur)
  have pos: "positional_ids (activeRows two_tenants)"
    by (simp add: act positional_ids_def String_num_def String_nat_digit digit_char_def)
  have st: "status two_tenants = Rent"
    by (simp add: two_tenants_def)
  from handleRowUsageChange_one_row [OF cur, of "''2''" usage_vacant]
  obtain s' cur' where res: "handleRowUsageChange two_tenants ''2'' usage_vacant = Inr s'"
    and other: "\<forall>k. k \<noteq> status two_tenants \<longrightarrow> info s' k = info two_tenants k"
    and cur': "info s' (status two_tenants) = Some cur'"
    and tc: "totalCount cur' = totalCount ?cur"
    and nc: "tenantCount cur' = tenantCount ?cur"
    and len: "length (leaseRows cur') = length (leaseRows ?cur)"
    and rows: "\<forall>i < length (leaseRows ?cur).
          leaseRows cur' ! i =
            (if id_row (leaseRows ?cur ! i) = ''2''
             then (leaseRows ?cur ! i)
                    \<lparr>usage := usage_vacant,
                     deposit := (if usage_vacant = usage_rented
                                 then deposit (leaseRows ?cur ! i) else []),
                     rent := (if usage_vacant = usage_rented
                              then rent (leaseRows ?cur ! i) else [])\<rparr>
             else leaseRows ?cur ! i)"
    by blast
  from rows have "leaseRows cur' ! 0 = ?r1"
    and "leaseRows cur' ! 1 = ?r2\<lparr>usage := usage_vacant, deposit := [], rent := []\<rparr>"
    by (simp_all add: usage_rented_neq_vacant [symmetric])
  with len have "leaseRows cur' = [?r1, ?r2\<lparr>usage := usage_vacant, deposit := [], rent := []\<rparr>]"
    by (simp add: list_eq_iff_nth_eq less_Suc_eq)
  with tc nc have "cur' = \<lparr>totalCount = ''2'', tenantCount = ''2'',
      leaseRows = [?r1, \<lparr>id_row = ''2'', usage = usage_vacant, deposit = [], rent = [],
                          businessRegistration = None\<rparr>]\<rparr>"
    by (cases cur') simp
  with cur' st res have a: "info_after (handleRowUsageChange two_tenants ''2'' usage_vacant) Rent =
      Some \<lparr>totalCount = ''2'', tenantCount = ''2'',
            leaseRows = [?r1, \<lparr>id_row = ''2'', usage = usage_vacant, deposit = [], rent = [],
                                businessRegistration = None\<rparr>]\<rparr>"
    by (simp add: info_after_def)
  from other st res have b: "info_after (handleRowUsageChange two_tenants ''2'' usage_vacant) Both =
      info two_tenants Both"
    by (simp add: info_after_def)
  from cur pos a b show ?thesis by blast
qed

subsection \<open>Leaving the total-count field\<close>

lemma digits_only_Number:
  "digits_only v \<Longrightarrow> \<exists>n. Number v = Some n \<and> 0 \<le> n"
  by (simp add: digits_only_def Number_def)

lemma Number_zero: "Number ''0'' = Some 0"
  by (simp add: Number_def is_digit_def digit_val_def)

lemma onlyNumbers_zero: "onlyNumbers ''0'' = ''0''"
  by (simp add: onlyNumbers_def is_digit_def)

text \<open>
  C7. Where the active entry exists and its total count is a string of digits (as it is in every
  state the container reaches), \<^verbatim>\<open>commitTotalCount()\<close> returns and the stored total count
  becomes \<open>"1"\<close> if the stored string is empty or its numeric value is less than 1, and stays what
  it was otherwise; the tenant count and the rows of the active entry, the active status and
  the entries of the other statuses are unchanged. \<^verbatim>\<open>changeTotalCount("0")\<close> followed by
  \<^verbatim>\<open>commitTotalCount()\<close> leaves the stored total count \<open>"1"\<close>.
\<close>

theorem handleTotalCountBlur_resets:
  "info s (status s) = Some cur \<Longrightarrow> digits_only (totalCount cur) \<Longrightarrow>
   (\<exists>n s' cur'.
      Number (totalCount cur) = Some n
    \<and> handleTotalCountBlur s = Inr s'
    \<and> status s' = status s
    \<and> (\<forall>k. k \<noteq> status s \<longrightarrow> info s' k = info s k)
    \<and> info s' (status s) = Some cur'
    \<and> totalCount cur' = (if totalCount cur = [] \<or> n < 1 then ''1'' else totalCount cur)
    \<and> tenantCount cur' = tenantCount cur
    \<and> leaseRows cur' = leaseRows cur)
   \<and> (\<exists>s1 s2 cur2.
      handleTotalCountChange s ''0'' = Inr s1
    \<and> handleTotalCountBlur s1 = Inr s2
    \<and> status s2 = status s
    \<and> info s2 (status s) = Some cur2
    \<and> totalCount cur2 = ''1'')"
proof
  assume cur: "info s (status s) = Some cur" and dig: "digits_only (totalCount cur)"
  from digits_only_Number [OF dig] obtain n where n: "Number (totalCount cur) = Some n"
    by blast
  with cur show "\<exists>n s' cur'.
      Number (totalCount cur) = Some n
    \<and> handleTotalCountBlur s = Inr s'
    \<and> status s' = status s
    \<and> (\<forall>k. k \<noteq> status s \<longrightarrow> info s' k = info s k)
    \<and> info s' (status s) = Some cur'
    \<and> totalCount cur' = (if totalCount cur = [] \<or> n < 1 then ''1'' else totalCount cur)
    \<and> tenantCount cur' = tenantCount cur
    \<and> leaseRows cur' = leaseRows cur"
    by (simp add: handleTotalCountBlur_def)
next
  assume cur: "info s (status s) = Some cur"
  then show "\<exists>s1 s2 cur2.
      handleTotalCountChange s ''0'' = Inr s1
    \<and> handleTotalCountBlur s1 = Inr s2
    \<and> status s2 = status s
    \<and> info s2 (status s) = Some cur2
    \<and> totalCount cur2 = ''1''"
    by (simp add: handleTotalCountChange_def handleTotalCountBlur_def Let_def onlyNumbers_zero
        Number_zero)
qed

theorem handleTotalCountBlur_resets_witness:
  "info two_tenants (status two_tenants) =
     Some \<lparr>totalCount = ''2'', tenantCount = ''2'',
           leaseRows =
             [\<lparr>id_row = ''1'', usage = usage_rented, deposit = ''500'', rent = ''30'',
                 businessRegistration = None\<rparr>,
              \<lparr>id_row = ''2'', usage = usage_rented, deposit = ''700'', rent = ''40'',
                 businessRegistration = None\<rparr>]\<rparr>
   \<and> digits_only ''2''
   \<and> info_after (handleTotalCountBlur two_tenants) Rent = info two_tenants Rent
   \<and> map_option totalCount
         (info_after (run two_tenants [ChangeTotalCount ''0'', CommitTotalCount]) Rent) = Some ''1''"
proof -
  let ?r1 = "\<lparr>id_row = ''1'', usage = usage_rented, deposit = ''500'', rent = ''30'',
               businessRegistration = None\<rparr>"
  let ?r2 = "\<lparr>id_row = ''2'', usage = usage_rented, deposit = ''700'', rent = ''40'',
               businessRegistration = None\<rparr>"
  let ?cur = "\<lparr>totalCount = ''2'', tenantCount = ''2'', leaseRows = [?r1, ?r2]\<rparr>"
  have cur: "info two_tenants (status two_tenants) = Some ?cur"
    by (simp add: two_tenants_def)
  have st: "status two_tenants = Rent"
    by (simp add: two_tenants_def)
  have dig: "digits_only ''2''"
    by (simp add: digits_only_def is_digit_def)
  then have dig': "digits_only (totalCount ?cur)" by simp
  have two: "Number ''2'' = Some 2"
    by (simp add: Number_def is_digit_def digit_val_def)
  note t = handleTotalCountBlur_resets [OF cur dig']
  from t obtain n s' cur' where n: "Number (totalCount ?cur) = Some n"
    and res: "handleTotalCountBlur two_tenants = Inr s'"
    and cur': "info s' (status two_tenants) = Some cur'"
    and tc: "totalCount cur' = (if totalCount ?cur = [] \<or> n < 1 then ''1'' else totalCount ?cur)"
    and nc: "tenantCount cur' = tenantCount ?cur"
    and rows: "leaseRows cur' = leaseRows ?cur"
    by blast
  from n two have "n = 2" by simp
  with tc nc rows have "cur' = ?cur" by (cases cur') simp
  with cur' res cur st have a: "info_after (handleTotalCountBlur two_tenants) Rent
      = info two_tenants Rent"
    by (simp add: info_after_def)
  from t obtain s1 s2 cur2 where "handleTotalCountChange two_tenants ''0'' = Inr s1"
    and "handleTotalCountBlur s1 = Inr s2"
    and "info s2 (status two_tenants) = Some cur2"
    and "totalCount cur2 = ''1''"
    by blast
  with st have b: "map_option totalCount
      (info_after (run two_tenants [ChangeTotalCount ''0'', CommitTotalCount]) Rent) = Some ''1''"
    by (simp add: info_after_def)
  from cur dig a b show ?thesis by blast
qed

subsection \<open>Editing the business registration of one row\<close>

text \<open>
  C9, as the code has it. Where the record has an entry for the active status,
  \<^verbatim>\<open>changeRowBusinessRegistration(rowId, value)\<close> returns, in a residential section as in a
  commercial one; it keeps the active status, every other status's entry, both counts of the
  active entry and the length of its row list. At every position the new row is the old one
  when the old row's id is not \<open>rowId\<close>; when it is, the new row is the old one with the field
  \<^verbatim>\<open>businessRegistration\<close> set to the value, whether or not the old row had that field.
\<close>

theorem handleRowBusinessRegistrationChange_one_row:
  "info s (status s) = Some cur \<Longrightarrow>
   (\<exists>s' cur'.
      handleRowBusinessRegistrationChange s rowId v = Inr s'
    \<and> status s' = status s
    \<and> (\<forall>k. k \<noteq> status s \<longrightarrow> info s' k = info s k)
    \<and> info s' (status s) = Some cur'
    \<and> totalCount cur' = totalCount cur
    \<and> tenantCount cur' = tenantCount cur
    \<and> length (leaseRows cur') = length (leaseRows cur)
    \<and> (\<forall>i < length (leaseRows cur).
          leaseRows cur' ! i =
            (if id_row (leaseRows cur ! i) = rowId
             then (leaseRows cur ! i)\<lparr>businessRegistration := Some v\<rparr>
             else leaseRows cur ! i)))"
  by (simp add: handleRowBusinessRegistrationChange_def)

theorem handleRowBusinessRegistrationChange_one_row_witness:
  "info two_tenants (status two_tenants) =
     Some \<lparr>totalCount = ''2'', tenantCount = ''2'',
           leaseRows =
             [\<lparr>id_row = ''1'', usage = usage_rented, deposit = ''500'', rent = ''30'',
                 businessRegistration = None\<rparr>,
              \<lparr>id_row = ''2'', usage = usage_rented, deposit = ''700'', rent = ''40'',
                 businessRegistration = None\<rparr>]\<rparr>
   \<and> info_after (handleRowBusinessRegistrationChange two_tenants ''1'' ''Y'') Rent =
       Some \<lparr>totalCount = ''2'', tenantCount = ''2'',
             leaseRows =
               [\<lparr>id_row = ''1'', usage = usage_rented, deposit = ''500'', rent = ''30'',
                   businessRegistration = Some ''Y''\<rparr>,
                \<lparr>id_row = ''2'', usage = usage_rented, deposit = ''700'', rent = ''40'',
                   businessRegistration = None\<rparr>]\<rparr>"
proof -
  let ?r1 = "\<lparr>id_row = ''1'', usage = usage_rented, deposit = ''500'', rent = ''30'',
               businessRegistration = None\<rparr>"
  let ?r2 = "\<lparr>id_row = ''2'', usage = usage_rented, deposit = ''700'', rent = ''40'',
               businessRegistration = None\<rparr>"
  let ?cur = "\<lparr>totalCount = ''2'', tenantCount = ''2'', leaseRows = [?r1, ?r2]\<rparr>"
  have cur: "info two_tenants (status two_tenants) = Some ?cur"
    by (simp add: two_tenants_def)
  have st: "status two_tenants = Rent"
    by (simp add: two_tenants_def)
  from handleRowBusinessRegistrationChange_one_row [OF cur, of "''1''" "''Y''"]
  obtain s' cur' where res: "handleRowBusinessRegistrationChange two_tenants ''1'' ''Y'' = Inr s'"
    and cur': "info s' (status two_tenants) = Some cur'"
    and tc: "totalCount cur' = totalCount ?cur"
    and nc: "tenantCount cur' = tenantCount ?cur"
    and len: "length (leaseRows cur') = length (leaseRows ?cur)"
    and rows: "\<forall>i < length (leaseRows ?cur).
          leaseRows cur' ! i =
            (if id_row (leaseRows ?cur ! i) = ''1''
             then (leaseRows ?cur ! i)\<lparr>businessRegistration := Some ''Y''\<rparr>
             else leaseRows ?cur ! i)"
    by blast
  from rows have "leaseRows cur' ! 0 = ?r1\<lparr>businessRegistration := Some ''Y''\<rparr>"
    and "leaseRows cur' ! 1 = ?r2"
    by simp_all
  with len have "leaseRows cur' = [?r1\<lparr>businessRegistration := Some ''Y''\<rparr>, ?r2]"
    by (simp add: list_eq_iff_nth_eq less_Suc_eq)
  with tc nc have "cur' = \<lparr>totalCount = ''2'', tenantCount = ''2'',
      leaseRows = [\<lparr>id_row = ''1'', usage = usage_rented, deposit = ''500'', rent = ''30'',
                     businessRegistration = Some ''Y''\<rparr>, ?r2]\<rparr>"
    by (cases cur') simp
  with cur' st res have "info_after (handleRowBusinessRegistrationChange two_tenants ''1'' ''Y'') Rent =
      Some \<lparr>totalCount = ''2'', tenantCount = ''2'',
            leaseRows = [\<lparr>id_row = ''1'', usage = usage_rented, deposit = ''500'', rent = ''30'',
                           businessRegistration = Some ''Y''\<rparr>, ?r2]\<rparr>"
    by (simp add: info_after_def)
  with cur show ?thesis by blast
qed

text \<open>
  C9, as the specification has it, fails: in a residential section, on a row that has no
  \<^verbatim>\<open>businessRegistration\<close> field, the handler is not a no-op. It adds the field.
\<close>

theorem handleRowBusinessRegistrationChange_adds_field:
  "\<not> isCommercial (useOccupancySection Residential Residence)
   \<and> activeRows (useOccupancySection Residential Residence) =
       [\<lparr>id_row = ''1'', usage = ''residence'', deposit = [], rent = [],
          businessRegistration = None\<rparr>]
   \<and> info_after (handleRowBusinessRegistrationChange
         (useOccupancySection Residential Residence) ''1'' ''Y'') Residence =
       Some \<lparr>totalCount = ''1'', tenantCount = ''0'',
             leaseRows = [\<lparr>id_row = ''1'', usage = ''residence'', deposit = [], rent = [],
                            businessRegistration = Some ''Y''\<rparr>]\<rparr>"
  by (simp add: isCommercial_def useOccupancySection_def activeRows_def info_after_def
      handleRowBusinessRegistrationChange_def createInitialInfoState_apply statuses_for_def)

subsection \<open>One entry per status\<close>

lemma handleStatusChange_other:
  "handleStatusChange s newStatus = Inr s' \<Longrightarrow> k \<noteq> newStatus \<Longrightarrow> info s' k = info s k"
  by (auto simp add: handleStatusChange_def Let_def split: option.splits)

lemma active_handlers_other:
  assumes "k \<noteq> status s"
  shows "handleTotalCountChange s v = Inr s' \<Longrightarrow> info s' k = info s k"
    and "handleTotalCountBlur s = Inr s' \<Longrightarrow> info s' k = info s k"
    and "handleTenantCountChange s v = Inr s' \<Longrightarrow> info s' k = info s k"
    and "handleTenantCountBlur s = Inr s' \<Longrightarrow> info s' k = info s k"
    and "handleRowUsageChange s rowId v = Inr s' \<Longrightarrow> info s' k = info s k"
    and "handleRowDepositChange s rowId v = Inr s' \<Longrightarrow> info s' k = info s k"
    and "handleRowRentChange s rowId v = Inr s' \<Longrightarrow> info s' k = info s k"
    and "handleRowBusinessRegistrationChange s rowId v = Inr s' \<Longrightarrow> info s' k = info s k"
  using assms
  by (auto simp add: handleTotalCountChange_def handleTotalCountBlur_def
      handleTenantCountChange_def handleTenantCountBlur_def handleRowUsageChange_def
      handleRowDepositChange_def handleRowRentChange_def
      handleRowBusinessRegistrationChange_def Let_def split: option.splits if_splits)

lemma apply_mutator_other:
  "apply_mutator s m = Inr s' \<Longrightarrow> k \<noteq> addressed s m \<Longrightarrow> info s' k = info s k"
  by (cases m) (simp_all add: handleStatusChange_other active_handlers_other)

text \<open>
  C3, as the code has it. A mutator that returns replaces only the entry of the status it
  addresses (the target status for \<^verbatim>\<open>changeStatus\<close>, the active status otherwise): the entry of
  every other status is unchanged. So after \<^verbatim>\<open>changeStatus(B)\<close> the entry of another status \<open>A\<close>
  is exactly what it was, however it had been mutated. A following \<^verbatim>\<open>changeStatus(A)\<close> makes
  \<open>A\<close> active and keeps the total count and the tenant count stored for \<open>A\<close>, and it replaces
  the rows of \<open>A\<close> by the rows derived again from those counts and the mutated rows.
\<close>

theorem mutators_replace_addressed_entry_only:
  "(apply_mutator s m = Inr s' \<longrightarrow> (\<forall>k. k \<noteq> addressed s m \<longrightarrow> info s' k = info s k))
   \<and> (A \<noteq> B \<and> info s A = Some a \<and> handleStatusChange s B = Inr s1
        \<and> handleStatusChange s1 A = Inr s2 \<longrightarrow>
         info s1 A = Some a
       \<and> status s2 = A
       \<and> info s2 A = Some (a\<lparr>leaseRows :=
            autoSetUsageStatus (max (Number_or_0 (totalCount a)) 1) (Number_or_0 (tenantCount a))
              (leaseRows a) A (isCommercial s)\<rparr>))"
proof (intro conjI impI)
  assume "apply_mutator s m = Inr s'"
  then show "\<forall>k. k \<noteq> addressed s m \<longrightarrow> info s' k = info s k"
    by (simp add: apply_mutator_other)
next
  assume h: "A \<noteq> B \<and> info s A = Some a \<and> handleStatusChange s B = Inr s1
        \<and> handleStatusChange s1 A = Inr s2"
  then have a1: "info s1 A = Some a"
    using handleStatusChange_other [of s B s1 A] by simp
  from h have com: "isCommercial s1 = isCommercial s"
    by (auto simp add: handleStatusChange_def isCommercial_def Let_def split: option.splits)
  from h a1 com show "info s1 A = Some a" "status s2 = A"
    "info s2 A = Some (a\<lparr>leaseRows :=
            autoSetUsageStatus (max (Number_or_0 (totalCount a)) 1) (Number_or_0 (tenantCount a))
              (leaseRows a) A (isCommercial s)\<rparr>)"
    by (auto simp add: handleStatusChange_def Let_def split: option.splits)
qed

theorem mutators_replace_addressed_entry_only_witness:
  "Rent \<noteq> Both
   \<and> info two_tenants Rent =
       Some \<lparr>totalCount = ''2'', tenantCount = ''2'',
             leaseRows =
               [\<lparr>id_row = ''1'', usage = usage_rented, deposit = ''500'', rent = ''30'',
                   businessRegistration = None\<rparr>,
                \<lparr>id_row = ''2'', usage = usage_rented, deposit = ''700'', rent = ''40'',
                   businessRegistration = None\<rparr>]\<rparr>
   \<and> info_after (apply_mutator two_tenants (ChangeRowDeposit ''1'' ''9'')) Both
       = info two_tenants Both
   \<and> info_after (run two_tenants [ChangeStatus Both]) Rent = info two_tenants Rent
   \<and> info_after (run two_tenants [ChangeStatus Both, ChangeStatus Rent]) Rent
       = info two_tenants Rent"
proof -
  let ?r1 = "\<lparr>id_row = ''1'', usage = usage_rented, deposit = ''500'', rent = ''30'',
               businessRegistration = None\<rparr>"
  let ?r2 = "\<lparr>id_row = ''2'', usage = usage_rented, deposit = ''700'', rent = ''40'',
               businessRegistration = None\<rparr>"
  let ?a = "\<lparr>totalCount = ''2'', tenantCount = ''2'', leaseRows = [?r1, ?r2]\<rparr>"
  have a: "info two_tenants Rent = Some ?a"
    by (simp add: two_tenants_def)
  have st: "status two_tenants = Rent"
    by (simp add: two_tenants_def)
  have b: "info two_tenants Both \<noteq> None"
    by (simp add: two_tenants_def createInitialInfoState_apply statuses_for_def)
  from a st obtain s' where s': "apply_mutator two_tenants (ChangeRowDeposit ''1'' ''9'') = Inr s'"
    by (simp add: handleRowDepositChange_def Let_def)
  from b obtain s1 where s1: "handleStatusChange two_tenants Both = Inr s1"
    by (auto simp add: handleStatusChange_def Let_def)
  have ne: "Rent \<noteq> Both" by simp
  note frame = mutators_replace_addressed_entry_only
    [of two_tenants "ChangeRowDeposit ''1'' ''9''" s', THEN conjunct1, rule_format, OF s']
  from frame [of Both] st have f: "info s' Both = info two_tenants Both" by simp
  from mutators_replace_addressed_entry_only [of two_tenants "ChangeStatus Both" s1, THEN conjunct1]
    s1 have a1: "info s1 Rent = Some ?a"
    by (simp add: a)
  then obtain s2 where s2: "handleStatusChange s1 Rent = Inr s2"
    by (auto simp add: handleStatusChange_def Let_def)
  note trip = mutators_replace_addressed_entry_only
    [where s = two_tenants and A = Rent and B = Both and a = ?a and ?s1.0 = s1 and ?s2.0 = s2,
      THEN conjunct2, rule_format]
  from ne a s1 s2 have "info s2 Rent = Some (?a\<lparr>leaseRows :=
      autoSetUsageStatus (max (Number_or_0 (totalCount ?a)) 1) (Number_or_0 (tenantCount ?a))
        (leaseRows ?a) Rent (isCommercial two_tenants)\<rparr>)"
    using trip by blast
  also have "Number_or_0 ''2'' = 2"
    by (simp add: Number_or_0_def Number_def is_digit_def digit_val_def)
  then have "?a\<lparr>leaseRows :=
      autoSetUsageStatus (max (Number_or_0 (totalCount ?a)) 1) (Number_or_0 (tenantCount ?a))
        (leaseRows ?a) Rent (isCommercial two_tenants)\<rparr> = ?a"
    by (simp add: autoSetUsageStatus_Rent rent_row_def index_opt_def Let_def
        String_num_def String_nat_digit digit_char_def numeral_2_eq_2)
  finally have a2: "info s2 Rent = Some ?a" .
  from s' f have c1: "info_after (apply_mutator two_tenants (ChangeRowDeposit ''1'' ''9'')) Both
      = info two_tenants Both"
    by (simp add: info_after_def)
  from s1 a1 a have c2: "info_after (run two_tenants [ChangeStatus Both]) Rent
      = info two_tenants Rent"
    by (simp add: info_after_def)
  from s1 s2 a2 a have c3: "info_after (run two_tenants [ChangeStatus Both, ChangeStatus Rent]) Rent
      = info two_tenants Rent"
    by (simp add: info_after_def)
  from ne a c1 c2 c3 show ?thesis by blast
qed

text \<open>
  C3, as the specification has it, fails in its last part. In a residential section the user
  switches to the rented status (one vacant row, no tenants), marks the row as rented and types
  a deposit, switches to the mixed status and back: the entry of the rented status is no longer
  the mutated one, since the row is derived again as vacant and loses its deposit.
\<close>

theorem changeStatus_back_rederives_rows:
  "info_after (run (useOccupancySection Residential Residence)
       [ChangeStatus Rent, ChangeRowUsage ''1'' usage_rented, ChangeRowDeposit ''1'' ''500'',
        ChangeStatus Both]) Rent
     = Some \<lparr>totalCount = ''1'', tenantCount = ''0'',
             leaseRows = [\<lparr>id_row = ''1'', usage = usage_rented, deposit = ''500'', rent = [],
                            businessRegistration = None\<rparr>]\<rparr>
   \<and> info_after (run (useOccupancySection Residential Residence)
       [ChangeStatus Rent, ChangeRowUsage ''1'' usage_rented, ChangeRowDeposit ''1'' ''500'',
        ChangeStatus Both, ChangeStatus Rent]) Rent
     = Some \<lparr>totalCount = ''1'', tenantCount = ''0'',
             leaseRows = [\<lparr>id_row = ''1'', usage = usage_vacant, deposit = [], rent = [],
                            businessRegistration = None\<rparr>]\<rparr>
   \<and> info_after (run (useOccupancySection Residential Residence)
       [ChangeStatus Rent, ChangeRowUsage ''1'' usage_rented, ChangeRowDeposit ''1'' ''500'',
        ChangeStatus Both, ChangeStatus Rent]) Rent
     \<noteq> info_after (run (useOccupancySection Residential Residence)
       [ChangeStatus Rent, ChangeRowUsage ''1'' usage_rented, ChangeRowDeposit ''1'' ''500'',
        ChangeStatus Both]) Rent"
proof -
  have n1: "Number_or_0 ''1'' = 1" and n0: "Number_or_0 ''0'' = 0"
    by (simp_all add: Number_or_0_def Number_def is_digit_def digit_val_def)
  have d: "onlyNumbers ''500'' = ''500''"
    by (simp add: onlyNumbers_def is_digit_def)
  show ?thesis
    by (simp add: info_after_def useOccupancySection_def createInitialInfoState_apply
        statuses_for_def handleStatusChange_def handleRowUsageChange_def
        handleRowDepositChange_def isCommercial_def Let_def n1 n0 d
        autoSetUsageStatus_Rent autoSetUsageStatus_Both rent_row_def both_row_def owner_row_def
        index_opt_def String_num_def String_nat_digit digit_char_def
        usage_rented_neq_vacant usage_rented_neq_vacant [symmetric])
qed

subsection \<open>Well-formed states\<close>

lemma wf_state_iff:
  "wf_state s =
     (applicable s (status s)
      \<and> (\<forall>k. case info s k of None \<Rightarrow> \<not> applicable s k
                | Some si \<Rightarrow> applicable s k \<and> wf_info si))"
proof -
  have "(\<forall>k. P k) = (P Residence \<and> P Rent \<and> P Both \<and> P SelfUse)"
    for P :: "OccupancyStatus \<Rightarrow> bool"
  proof
    assume "P Residence \<and> P Rent \<and> P Both \<and> P SelfUse"
    then show "\<forall>k. P k" by (auto intro: OccupancyStatus.induct)
  qed simp
  then show ?thesis by (simp add: wf_state_def)
qed

lemma wf_state_entries:
  "wf_state s =
     (applicable s (status s)
      \<and> (\<forall>k. applicable s k \<longrightarrow> (\<exists>si. info s k = Some si \<and> wf_info si))
      \<and> (\<forall>k. \<not> applicable s k \<longrightarrow> info s k = None))"
proof -
  have "(case info s k of None \<Rightarrow> \<not> applicable s k | Some si \<Rightarrow> applicable s k \<and> wf_info si)
      = ((applicable s k \<longrightarrow> (\<exists>si. info s k = Some si \<and> wf_info si))
         \<and> (\<not> applicable s k \<longrightarrow> info s k = None))" for k
    by (cases "info s k") auto
  then show ?thesis
    unfolding wf_state_iff by auto
qed

lemma wf_state_entry:
  "wf_state s \<Longrightarrow> applicable s k \<Longrightarrow> \<exists>si. info s k = Some si \<and> wf_info si"
  by (simp add: wf_state_entries)

lemma wf_state_applicable:
  "wf_state s \<Longrightarrow> info s k = Some si \<Longrightarrow> applicable s k"
  unfolding wf_state_entries by (cases "applicable s k") auto

lemma wf_state_update:
  assumes "wf_state s" and "applicable s k" and "wf_info si"
  shows "wf_state (s\<lparr>status := k, info := (info s)(k \<mapsto> si)\<rparr>)"
    and "k = status s \<Longrightarrow> wf_state (s\<lparr>info := (info s)(k \<mapsto> si)\<rparr>)"
  using assms unfolding wf_state_entries by (auto simp add: applicable_def)

lemma Number_or_0_nonneg: "0 \<le> Number_or_0 v"
  by (simp add: Number_or_0_def Number_def)

lemma digits_only_onlyNumbers: "digits_only (onlyNumbers v)"
  by (simp add: digits_only_def onlyNumbers_def list_all_iff)

lemma digits_only_Nil: "digits_only []"
  by (simp add: digits_only_def)

lemma digits_only_one: "digits_only ''1''" and digits_only_zero: "digits_only ''0''"
  by (simp_all add: digits_only_def is_digit_def)

lemma digits_field_or_empty:
  "list_all (\<lambda>r. digits_only (deposit r) \<and> digits_only (rent r)) existingRows \<Longrightarrow>
   digits_only (field_or_empty deposit (index_opt existingRows i))
   \<and> digits_only (field_or_empty rent (index_opt existingRows i))"
  by (simp add: index_opt_def list_all_length digits_only_Nil)

lemma autoSetUsageStatus_nonempty:
  "autoSetUsageStatus totalC tenantC existingRows st com \<noteq> []"
proof (cases st)
  case Rent
  have "0 < nat (max (max totalC tenantC) 1)" by simp
  then have "[0..<nat (max (max totalC tenantC) 1)] \<noteq> []" by simp
  with Rent show ?thesis by (simp add: autoSetUsageStatus_Rent del: upt_eq_Nil_conv)
next
  case Both
  then show ?thesis by (simp add: autoSetUsageStatus_Both)
next
  case Residence
  have "0 < nat (max (max totalC tenantC) 1)" by simp
  then have "[0..<nat (max (max totalC tenantC) 1)] \<noteq> []" by simp
  with Residence show ?thesis by (simp add: autoSetUsageStatus_Residence del: upt_eq_Nil_conv)
next
  case SelfUse
  have "0 < nat (max (max totalC tenantC) 1)" by simp
  then have "[0..<nat (max (max totalC tenantC) 1)] \<noteq> []" by simp
  with SelfUse show ?thesis by (simp add: autoSetUsageStatus_Residence del: upt_eq_Nil_conv)
qed

lemma autoSetUsageStatus_positional:
  assumes "0 \<le> tenantC"
  shows "positional_ids (autoSetUsageStatus totalC tenantC existingRows st com)"
proof (cases st)
  case Rent
  then show ?thesis
    by (simp add: positional_ids_def autoSetUsageStatus_Rent rent_row_def Let_def)
next
  case Both
  from assms have "0 \<le> max (totalC - 1) tenantC" by linarith
  then have "int (nat (max (totalC - 1) tenantC)) = max (totalC - 1) tenantC" by simp
  with Both show ?thesis
    by (simp add: positional_ids_def autoSetUsageStatus_Both both_row_def owner_row_def Let_def)
next
  case Residence
  then show ?thesis
    by (simp add: positional_ids_def autoSetUsageStatus_Residence residence_row_def)
next
  case SelfUse
  then show ?thesis
    by (simp add: positional_ids_def autoSetUsageStatus_Residence residence_row_def)
qed

lemma autoSetUsageStatus_digits:
  assumes "list_all (\<lambda>r. digits_only (deposit r) \<and> digits_only (rent r)) existingRows"
  shows "list_all (\<lambda>r. digits_only (deposit r) \<and> digits_only (rent r))
           (autoSetUsageStatus totalC tenantC existingRows st com)"
proof (cases st)
  case Rent
  with digits_field_or_empty [OF assms] show ?thesis
    by (simp add: autoSetUsageStatus_Rent rent_row_def Let_def list_all_iff digits_only_Nil)
next
  case Both
  with digits_field_or_empty [OF assms] show ?thesis
    by (simp add: autoSetUsageStatus_Both both_row_def owner_row_def Let_def list_all_iff
        digits_only_Nil)
next
  case Residence
  then show ?thesis
    by (simp add: autoSetUsageStatus_Residence residence_row_def list_all_iff digits_only_Nil)
next
  case SelfUse
  then show ?thesis
    by (simp add: autoSetUsageStatus_Residence residence_row_def list_all_iff digits_only_Nil)
qed

lemma wf_info_derived:
  assumes "wf_info si" and "0 \<le> tenantC" and "digits_only t" and "digits_only n"
  shows "wf_info \<lparr>totalCount = t, tenantCount = n,
           leaseRows = autoSetUsageStatus totalC tenantC (leaseRows si) st com\<rparr>"
  using assms
  by (simp add: wf_info_def autoSetUsageStatus_nonempty autoSetUsageStatus_positional
      autoSetUsageStatus_digits)

lemma wf_info_map_rows:
  assumes "wf_info si"
    and "\<And>r. id_row (f r) = id_row r"
    and "\<And>r. digits_only (deposit r) \<and> digits_only (rent r) \<Longrightarrow>
           digits_only (deposit (f r)) \<and> digits_only (rent (f r))"
  shows "wf_info (si\<lparr>leaseRows := map f (leaseRows si)\<rparr>)"
  using assms by (simp add: wf_info_def positional_ids_def comp_def list_all_iff)

lemma wf_info_counts:
  "wf_info si \<Longrightarrow> digits_only t \<Longrightarrow> wf_info (si\<lparr>totalCount := t\<rparr>)"
  "wf_info si \<Longrightarrow> digits_only t \<Longrightarrow> wf_info (si\<lparr>tenantCount := t\<rparr>)"
  by (simp_all add: wf_info_def)

lemma wf_useOccupancySection:
  "initialStatus \<in> set (statuses_for ty) \<Longrightarrow> wf_state (useOccupancySection ty initialStatus)"
  unfolding wf_state_entries
  by (simp add: useOccupancySection_def applicable_def createInitialInfoState_apply wf_info_def
      digits_only_one digits_only_zero digits_only_Nil positional_ids_def String_num_def
      String_nat_digit digit_char_def)

lemma wf_handleStatusChange:
  assumes "wf_state s" and "applicable s newStatus"
  shows "\<exists>s'. handleStatusChange s newStatus = Inr s' \<and> wf_state s'"
proof -
  from wf_state_entry [OF assms] obtain cur
    where cur: "info s newStatus = Some cur" and wf: "wf_info cur" by blast
  let ?rows = "autoSetUsageStatus (max (Number_or_0 (totalCount cur)) 1)
      (Number_or_0 (tenantCount cur)) (leaseRows cur) newStatus (isCommercial s)"
  from wf have "wf_info (cur\<lparr>leaseRows := ?rows\<rparr>)"
    by (simp add: wf_info_def autoSetUsageStatus_nonempty autoSetUsageStatus_positional
        autoSetUsageStatus_digits Number_or_0_nonneg)
  from wf_state_update(1) [OF assms this] cur show ?thesis
    by (simp add: handleStatusChange_def Let_def)
qed

lemma wf_active_handlers:
  assumes "wf_state s"
  shows "\<exists>s'. handleTotalCountChange s v = Inr s' \<and> wf_state s'"
    and "\<exists>s'. handleTotalCountBlur s = Inr s' \<and> wf_state s'"
    and "\<exists>s'. handleTenantCountChange s v = Inr s' \<and> wf_state s'"
    and "\<exists>s'. handleTenantCountBlur s = Inr s' \<and> wf_state s'"
    and "\<exists>s'. handleRowUsageChange s rowId v = Inr s' \<and> wf_state s'"
    and "\<exists>s'. handleRowDepositChange s rowId v = Inr s' \<and> wf_state s'"
    and "\<exists>s'. handleRowRentChange s rowId v = Inr s' \<and> wf_state s'"
    and "\<exists>s'. handleRowBusinessRegistrationChange s rowId v = Inr s' \<and> wf_state s'"
proof -
  from assms have app: "applicable s (status s)"
    by (simp add: wf_state_entries)
  from wf_state_entry [OF assms app] obtain cur
    where cur: "info s (status s) = Some cur" and wf: "wf_info cur" by blast
  note upd = wf_state_update(2) [OF assms app _ refl]
  from wf have "wf_info (cur\<lparr>totalCount := onlyNumbers v,
      leaseRows := autoSetUsageStatus (max (Number_or_0 (onlyNumbers v)) 1)
        (Number_or_0 (tenantCount cur)) (leaseRows cur) (status s) (isCommercial s)\<rparr>)"
    by (simp add: wf_info_def autoSetUsageStatus_nonempty autoSetUsageStatus_positional
        autoSetUsageStatus_digits Number_or_0_nonneg digits_only_onlyNumbers)
  from upd [OF this] cur show "\<exists>s'. handleTotalCountChange s v = Inr s' \<and> wf_state s'"
    by (simp add: handleTotalCountChange_def Let_def)
  from wf have "wf_info (cur\<lparr>totalCount := ''1''\<rparr>)"
    by (simp add: wf_info_def digits_only_one)
  from upd [OF this] cur assms show "\<exists>s'. handleTotalCountBlur s = Inr s' \<and> wf_state s'"
    by (simp add: handleTotalCountBlur_def Let_def)
  from wf have "wf_info (cur\<lparr>tenantCount := onlyNumbers v,
      leaseRows := autoSetUsageStatus (Number_or_0 (totalCount cur))
        (Number_or_0 (onlyNumbers v)) (leaseRows cur) (status s) (isCommercial s)\<rparr>)"
    by (simp add: wf_info_def autoSetUsageStatus_nonempty autoSetUsageStatus_positional
        autoSetUsageStatus_digits Number_or_0_nonneg digits_only_onlyNumbers)
  from upd [OF this] cur show "\<exists>s'. handleTenantCountChange s v = Inr s' \<and> wf_state s'"
    by (simp add: handleTenantCountChange_def Let_def)
  from wf have "wf_info (cur\<lparr>tenantCount := ''0''\<rparr>)"
    by (simp add: wf_info_def digits_only_zero)
  from upd [OF this] cur assms show "\<exists>s'. handleTenantCountBlur s = Inr s' \<and> wf_state s'"
    by (simp add: handleTenantCountBlur_def)
  from wf have "wf_info (cur\<lparr>leaseRows := map (\<lambda>r. if id_row r = rowId
      then r\<lparr>usage := v, deposit := (if v = usage_rented then deposit r else []),
             rent := (if v = usage_rented then rent r else [])\<rparr>
      else r) (leaseRows cur)\<rparr>)"
    by (intro wf_info_map_rows) (simp_all add: digits_only_Nil)
  from upd [OF this] cur show "\<exists>s'. handleRowUsageChange s rowId v = Inr s' \<and> wf_state s'"
    by (simp add: handleRowUsageChange_def)
  from wf have "wf_info (cur\<lparr>leaseRows := map (\<lambda>r. if id_row r = rowId
      then r\<lparr>deposit := onlyNumbers v\<rparr> else r) (leaseRows cur)\<rparr>)"
    by (intro wf_info_map_rows) (simp_all add: digits_only_onlyNumbers)
  from upd [OF this] cur show "\<exists>s'. handleRowDepositChange s rowId v = Inr s' \<and> wf_state s'"
    by (simp add: handleRowDepositChange_def Let_def)
  from wf have "wf_info (cur\<lparr>leaseRows := map (\<lambda>r. if id_row r = rowId
      then r\<lparr>rent := onlyNumbers v\<rparr> else r) (leaseRows cur)\<rparr>)"
    by (intro wf_info_map_rows) (simp_all add: digits_only_onlyNumbers)
  from upd [OF this] cur show "\<exists>s'. handleRowRentChange s rowId v = Inr s' \<and> wf_state s'"
    by (simp add: handleRowRentChange_def Let_def)
  from wf have "wf_info (cur\<lparr>leaseRows := map (\<lambda>r. if id_row r = rowId
      then r\<lparr>businessRegistration := Some v\<rparr> else r) (leaseRows cur)\<rparr>)"
    by (intro wf_info_map_rows) simp_all
  from upd [OF this] cur
  show "\<exists>s'. handleRowBusinessRegistrationChange s rowId v = Inr s' \<and> wf_state s'"
    by (simp add: handleRowBusinessRegistrationChange_def)
qed

lemma wf_apply_mutator:
  "wf_state s \<Longrightarrow> applicable_input s m \<Longrightarrow> \<exists>s'. apply_mutator s m = Inr s' \<and> wf_state s'"
  by (cases m) (simp_all add: wf_handleStatusChange wf_active_handlers)

lemma returns_applicable_input:
  "wf_state s \<Longrightarrow> apply_mutator s m = Inr s' \<Longrightarrow> applicable_input s m"
  by (cases m)
    (auto simp add: handleStatusChange_def Let_def wf_state_applicable split: option.splits)

lemma reachable_wf_state: "reachable s \<Longrightarrow> wf_state s"
proof (induction rule: reachable.induct)
  case (reachable_init initialStatus ty)
  then show ?case by (rule wf_useOccupancySection)
next
  case (reachable_step s m s')
  from returns_applicable_input [OF reachable_step.IH reachable_step.hyps(2)]
  have "applicable_input s m" .
  from wf_apply_mutator [OF reachable_step.IH this] reachable_step.hyps(2)
  show ?case by simp
qed

subsection \<open>Counts within a limit are preserved\<close>

lemma all_statuses:
  "list_all P [Residence, Rent, Both, SelfUse] = (\<forall>k. P k)"
proof
  assume "list_all P [Residence, Rent, Both, SelfUse]"
  then have "P k" for k by (cases k) simp_all
  then show "\<forall>k. P k" by blast
qed simp

lemma within_limit_iff:
  "within_limit L s = (\<forall>k si. info s k = Some si \<longrightarrow> info_within L si)"
  unfolding within_limit_def all_statuses by (auto split: option.splits)

lemma rows_fit_iff:
  "rows_fit s =
     (\<forall>k si. info s k = Some si \<longrightarrow> int (length (leaseRows si)) \<le> max_array_length)"
  unfolding rows_fit_def all_statuses by (auto split: option.splits)

lemma within_limit_rows_fit:
  "within_limit L s \<Longrightarrow> L + 1 \<le> max_array_length \<Longrightarrow> rows_fit s"
  unfolding within_limit_iff rows_fit_iff info_within_def by force

lemma within_limit_update:
  assumes "within_limit L s" and "info_within L si"
  shows "within_limit L (s\<lparr>info := (info s)(k \<mapsto> si)\<rparr>)"
    and "within_limit L (s\<lparr>status := k', info := (info s)(k \<mapsto> si)\<rparr>)"
  using assms unfolding within_limit_iff by auto

lemma Number_or_0_one: "Number_or_0 ''1'' = 1" and Number_or_0_zero: "Number_or_0 ''0'' = 0"
  by (simp_all add: Number_or_0_def Number_def is_digit_def digit_val_def)

lemma autoSetUsageStatus_length_le:
  assumes "t \<le> L" and "n \<le> L" and "1 \<le> L"
  shows "int (length (autoSetUsageStatus t n existingRows st com)) \<le> L + 1"
proof (cases st)
  case Rent
  with assms show ?thesis by (simp add: autoSetUsageStatus_Rent)
next
  case Both
  from assms have "int (nat (max (t - 1) n)) \<le> L" by simp
  with Both show ?thesis by (simp add: autoSetUsageStatus_Both)
next
  case Residence
  with assms show ?thesis by (simp add: autoSetUsageStatus_Residence)
next
  case SelfUse
  with assms show ?thesis by (simp add: autoSetUsageStatus_Residence)
qed

lemma within_limit_useOccupancySection:
  "1 \<le> L \<Longrightarrow> within_limit L (useOccupancySection ty initialStatus)"
  unfolding within_limit_iff
  by (simp add: useOccupancySection_def createInitialInfoState_apply info_within_def
      Number_or_0_one Number_or_0_zero)

lemma within_limit_handleStatusChange:
  assumes "1 \<le> L" and "within_limit L s" and "handleStatusChange s newStatus = Inr s'"
  shows "within_limit L s'"
proof -
  from assms(3) obtain cur where cur: "info s newStatus = Some cur"
    by (auto simp add: handleStatusChange_def split: option.splits)
  with assms(2) have w: "info_within L cur" by (simp add: within_limit_iff)
  let ?rows = "autoSetUsageStatus (max (Number_or_0 (totalCount cur)) 1)
      (Number_or_0 (tenantCount cur)) (leaseRows cur) newStatus (isCommercial s)"
  from w assms(1) have "int (length ?rows) \<le> L + 1"
    by (intro autoSetUsageStatus_length_le) (simp_all add: info_within_def)
  with w have "info_within L (cur\<lparr>leaseRows := ?rows\<rparr>)"
    by (simp add: info_within_def)
  from within_limit_update(2) [OF assms(2) this] assms(3) cur show ?thesis
    by (auto simp add: handleStatusChange_def Let_def)
qed

lemma within_limit_map_rows:
  assumes "within_limit L s" and "info s (status s) = Some cur"
  shows "within_limit L
           (s\<lparr>info := (info s)(status s \<mapsto> cur\<lparr>leaseRows := map f (leaseRows cur)\<rparr>)\<rparr>)"
proof -
  from assms have "info_within L cur" by (simp add: within_limit_iff)
  then have "info_within L (cur\<lparr>leaseRows := map f (leaseRows cur)\<rparr>)"
    by (simp add: info_within_def)
  from within_limit_update(1) [OF assms(1) this] show ?thesis .
qed

lemma within_limit_active_handlers:
  assumes "1 \<le> L" and "within_limit L s"
  shows "Number_or_0 (onlyNumbers v) \<le> L \<Longrightarrow> handleTotalCountChange s v = Inr s' \<Longrightarrow>
           within_limit L s'"
    and "handleTotalCountBlur s = Inr s' \<Longrightarrow> within_limit L s'"
    and "Number_or_0 (onlyNumbers v) \<le> L \<Longrightarrow> handleTenantCountChange s v = Inr s' \<Longrightarrow>
           within_limit L s'"
    and "handleTenantCountBlur s = Inr s' \<Longrightarrow> within_limit L s'"
    and "handleRowUsageChange s rowId v = Inr s' \<Longrightarrow> within_limit L s'"
    and "handleRowDepositChange s rowId v = Inr s' \<Longrightarrow> within_limit L s'"
    and "handleRowRentChange s rowId v = Inr s' \<Longrightarrow> within_limit L s'"
    and "handleRowBusinessRegistrationChange s rowId v = Inr s' \<Longrightarrow> within_limit L s'"
proof -
  note upd = within_limit_update(1) [OF assms(2)]
  have w: "info_within L cur" if "info s (status s) = Some cur" for cur
    using assms(2) that by (simp add: within_limit_iff)
  show "within_limit L s'"
    if c: "Number_or_0 (onlyNumbers v) \<le> L" and r: "handleTotalCountChange s v = Inr s'"
  proof -
    from r obtain cur where cur: "info s (status s) = Some cur"
      by (auto simp add: handleTotalCountChange_def Let_def split: option.splits)
    let ?rows = "autoSetUsageStatus (max (Number_or_0 (onlyNumbers v)) 1)
        (Number_or_0 (tenantCount cur)) (leaseRows cur) (status s) (isCommercial s)"
    from w [OF cur] c assms(1) have "int (length ?rows) \<le> L + 1"
      by (intro autoSetUsageStatus_length_le) (simp_all add: info_within_def)
    with w [OF cur] c
    have "info_within L (cur\<lparr>totalCount := onlyNumbers v, leaseRows := ?rows\<rparr>)"
      by (simp add: info_within_def)
    from upd [OF this] r cur show ?thesis
      by (auto simp add: handleTotalCountChange_def Let_def)
  qed
  show "within_limit L s'" if r: "handleTotalCountBlur s = Inr s'"
  proof -
    from r obtain cur where cur: "info s (status s) = Some cur"
      by (auto simp add: handleTotalCountBlur_def split: option.splits)
    from w [OF cur] assms(1) have "info_within L (cur\<lparr>totalCount := ''1''\<rparr>)"
      by (simp add: info_within_def Number_or_0_one)
    from upd [OF this] r cur assms(2) show ?thesis
      by (auto simp add: handleTotalCountBlur_def Let_def split: if_splits)
  qed
  show "within_limit L s'"
    if c: "Number_or_0 (onlyNumbers v) \<le> L" and r: "handleTenantCountChange s v = Inr s'"
  proof -
    from r obtain cur where cur: "info s (status s) = Some cur"
      by (auto simp add: handleTenantCountChange_def Let_def split: option.splits)
    let ?rows = "autoSetUsageStatus (Number_or_0 (totalCount cur))
        (Number_or_0 (onlyNumbers v)) (leaseRows cur) (status s) (isCommercial s)"
    from w [OF cur] c assms(1) have "int (length ?rows) \<le> L + 1"
      by (intro autoSetUsageStatus_length_le) (simp_all add: info_within_def)
    with w [OF cur] c
    have "info_within L (cur\<lparr>tenantCount := onlyNumbers v, leaseRows := ?rows\<rparr>)"
      by (simp add: info_within_def)
    from upd [OF this] r cur show ?thesis
      by (auto simp add: handleTenantCountChange_def Let_def)
  qed
  show "within_limit L s'" if r: "handleTenantCountBlur s = Inr s'"
  proof -
    from r obtain cur where cur: "info s (status s) = Some cur"
      by (auto simp add: handleTenantCountBlur_def split: option.splits)
    from w [OF cur] assms(1) have "info_within L (cur\<lparr>tenantCount := ''0''\<rparr>)"
      by (simp add: info_within_def Number_or_0_zero)
    from upd [OF this] r cur assms(2) show ?thesis
      by (auto simp add: handleTenantCountBlur_def split: if_splits)
  qed
  show "within_limit L s'" if r: "handleRowUsageChange s rowId v = Inr s'"
  proof -
    from r obtain cur where cur: "info s (status s) = Some cur"
      by (auto simp add: handleRowUsageChange_def Let_def split: option.splits)
    from within_limit_map_rows [OF assms(2) cur] r cur show ?thesis
      by (auto simp add: handleRowUsageChange_def Let_def)
  qed
  show "within_limit L s'" if r: "handleRowDepositChange s rowId v = Inr s'"
  proof -
    from r obtain cur where cur: "info s (status s) = Some cur"
      by (auto simp add: handleRowDepositChange_def Let_def split: option.splits)
    from within_limit_map_rows [OF assms(2) cur] r cur show ?thesis
      by (auto simp add: handleRowDepositChange_def Let_def)
  qed
  show "within_limit L s'" if r: "handleRowRentChange s rowId v = Inr s'"
  proof -
    from r obtain cur where cur: "info s (status s) = Some cur"
      by (auto simp add: handleRowRentChange_def Let_def split: option.splits)
    from within_limit_map_rows [OF assms(2) cur] r cur show ?thesis
      by (auto simp add: handleRowRentChange_def Let_def)
  qed
  show "within_limit L s'" if r: "handleRowBusinessRegistrationChange s rowId v = Inr s'"
  proof -
    from r obtain cur where cur: "info s (status s) = Some cur"
      by (auto simp add: handleRowBusinessRegistrationChange_def Let_def split: option.splits)
    from within_limit_map_rows [OF assms(2) cur] r cur show ?thesis
      by (auto simp add: handleRowBusinessRegistrationChange_def Let_def)
  qed
qed

lemma within_limit_apply_mutator:
  assumes "1 \<le> L" and "within_limit L s" and "requested_count m \<le> L"
    and "apply_mutator s m = Inr s'"
  shows "within_limit L s'"
proof (cases m)
  case (ChangeStatus newStatus)
  with assms show ?thesis by (simp add: within_limit_handleStatusChange [OF assms(1,2)])
next
  case (ChangeTotalCount v)
  with assms show ?thesis by (simp add: within_limit_active_handlers(1) [OF assms(1,2)])
next
  case CommitTotalCount
  with assms show ?thesis by (simp add: within_limit_active_handlers(2) [OF assms(1,2)])
next
  case (ChangeTenantCount v)
  with assms show ?thesis by (simp add: within_limit_active_handlers(3) [OF assms(1,2)])
next
  case CommitTenantCount
  with assms show ?thesis by (simp add: within_limit_active_handlers(4) [OF assms(1,2)])
next
  case (ChangeRowUsage rowId v)
  with assms show ?thesis by (simp add: within_limit_active_handlers(5) [OF assms(1,2)])
next
  case (ChangeRowDeposit rowId v)
  with assms show ?thesis by (simp add: within_limit_active_handlers(6) [OF assms(1,2)])
next
  case (ChangeRowRent rowId v)
  with assms show ?thesis by (simp add: within_limit_active_handlers(7) [OF assms(1,2)])
next
  case (ChangeRowBusinessRegistration rowId v)
  with assms show ?thesis by (simp add: within_limit_active_handlers(8) [OF assms(1,2)])
qed

lemma reachable_within_reachable: "reachable_within L s \<Longrightarrow> reachable s"
  by (induction rule: reachable_within.induct) (auto intro: reachable.intros)

lemma reachable_within_limit:
  assumes "reachable_within L s" and "1 \<le> L"
  shows "within_limit L s"
  using assms
proof (induction rule: reachable_within.induct)
  case (reachable_within_init initialStatus ty L)
  then show ?case by (simp add: within_limit_useOccupancySection)
next
  case (reachable_within_step L s m s')
  from reachable_within_step.IH [OF reachable_within_step.prems]
    reachable_within_step.hyps(2,3) reachable_within_step.prems
  show ?case by (rule within_limit_apply_mutator [rotated])
qed

subsection \<open>Handlers return\<close>

text \<open>
  C5, as the code has it. Let \<open>L\<close> be a limit of at least 1 such that \<open>L + 1\<close> rows fit an array.
  In every state that the container reaches while no invocation asks for a count above \<open>L\<close>
  (it is constructed with an initial status that its category has), every mutator returns, for
  every string whose digits denote a count of at most \<open>L\<close> and for every status argument that
  the category has: it throws nothing, it rejects no input, and the state it returns is well
  formed, is reached within the limit again, stores no count above \<open>L\<close> and has at most \<open>L + 1\<close>
  rows per status, which fit an array. A count that is not a number is stored as its digits and
  read as 0 (floored to 1 for the total count). Nothing is said of a count above the limit.
\<close>

theorem mutators_return_within_limit:
  "1 \<le> L \<Longrightarrow> L + 1 \<le> max_array_length \<Longrightarrow> reachable_within L s \<Longrightarrow>
   applicable_input s m \<Longrightarrow> requested_count m \<le> L \<Longrightarrow>
   \<exists>s'. apply_mutator s m = Inr s' \<and> wf_state s' \<and> reachable_within L s'
        \<and> within_limit L s' \<and> rows_fit s'"
proof -
  assume L: "1 \<le> L" and fit: "L + 1 \<le> max_array_length" and r: "reachable_within L s"
    and a: "applicable_input s m" and c: "requested_count m \<le> L"
  from r have "wf_state s"
    by (intro reachable_wf_state reachable_within_reachable)
  from wf_apply_mutator [OF this a] obtain s'
    where s': "apply_mutator s m = Inr s'" and wf: "wf_state s'" by blast
  from r c s' have r': "reachable_within L s'" by (rule reachable_within_step)
  from reachable_within_limit [OF r' L] have w: "within_limit L s'" .
  from within_limit_rows_fit [OF w fit] have "rows_fit s'" .
  with s' wf r' w show ?thesis by blast
qed

theorem mutators_return_within_limit_witness:
  "(1::int) \<le> 100 \<and> (100::int) + 1 \<le> max_array_length
   \<and> reachable_within 100 (useOccupancySection Commercial SelfUse)
   \<and> applicable_input (useOccupancySection Commercial SelfUse) (ChangeTotalCount ''2 units'')
   \<and> requested_count (ChangeTotalCount ''2 units'') \<le> 100
   \<and> (case apply_mutator (useOccupancySection Commercial SelfUse) (ChangeTotalCount ''2 units'')
       of Inl e \<Rightarrow> False
        | Inr s' \<Rightarrow> wf_state s' \<and> reachable_within 100 s' \<and> within_limit 100 s' \<and> rows_fit s')
   \<and> info_after (apply_mutator (useOccupancySection Commercial SelfUse)
         (ChangeTotalCount ''2 units'')) SelfUse =
       Some \<lparr>totalCount = ''2'', tenantCount = ''0'',
             leaseRows =
               [\<lparr>id_row = ''1'', usage = usage_direct, deposit = [], rent = [],
                   businessRegistration = Some []\<rparr>,
                \<lparr>id_row = ''2'', usage = usage_direct, deposit = [], rent = [],
                   businessRegistration = Some []\<rparr>]\<rparr>"
proof -
  let ?s = "useOccupancySection Commercial SelfUse"
  let ?m = "ChangeTotalCount ''2 units''"
  have L: "(1::int) \<le> 100" by simp
  have fit: "(100::int) + 1 \<le> max_array_length"
    by (simp add: max_array_length_def)
  have r: "reachable_within 100 ?s"
    by (rule reachable_within_init) (simp add: statuses_for_def)
  have a: "applicable_input ?s ?m" by simp
  have d: "onlyNumbers ''2 units'' = ''2''"
    by (simp add: onlyNumbers_def is_digit_def)
  have n2: "Number_or_0 ''2'' = 2"
    by (simp add: Number_or_0_def Number_def is_digit_def digit_val_def)
  have c: "requested_count ?m \<le> 100"
    by (simp add: d n2)
  from mutators_return_within_limit [OF L fit r a c] obtain s'
    where s': "apply_mutator ?s ?m = Inr s'" and wf: "wf_state s'"
      and r': "reachable_within 100 s'" and w: "within_limit 100 s'" and f: "rows_fit s'"
    by blast
  have i: "info_after (apply_mutator ?s ?m) SelfUse =
       Some \<lparr>totalCount = ''2'', tenantCount = ''0'',
             leaseRows =
               [\<lparr>id_row = ''1'', usage = usage_direct, deposit = [], rent = [],
                   businessRegistration = Some []\<rparr>,
                \<lparr>id_row = ''2'', usage = usage_direct, deposit = [], rent = [],
                   businessRegistration = Some []\<rparr>]\<rparr>"
    by (simp add: info_after_def handleTotalCountChange_def Let_def useOccupancySection_def
        createInitialInfoState_apply statuses_for_def isCommercial_def d n2 Number_or_0_zero
        autoSetUsageStatus_Residence residence_row_def String_num_def String_nat_digit
        digit_char_def numeral_2_eq_2)
  from s' wf r' w f have "case apply_mutator ?s ?m of Inl e \<Rightarrow> False
      | Inr s' \<Rightarrow> wf_state s' \<and> reachable_within 100 s' \<and> within_limit 100 s' \<and> rows_fit s'"
    by simp
  with L fit r a c i show ?thesis by blast
qed

text \<open>
  C5, as the specification has it, fails for a status argument that the category does not have:
  a residential section has no entry for \<^verbatim>\<open>'self-use'\<close>, and \<^verbatim>\<open>changeStatus('self-use')\<close>
  reads a field of the missing entry and throws.
\<close>

theorem changeStatus_inapplicable_throws:
  "reachable (useOccupancySection Residential Residence)
   \<and> apply_mutator (useOccupancySection Residential Residence) (ChangeStatus SelfUse)
       = Inl TypeError"
proof
  show "reachable (useOccupancySection Residential Residence)"
    by (rule reachable_init) (simp add: statuses_for_def)
  show "apply_mutator (useOccupancySection Residential Residence) (ChangeStatus SelfUse)
       = Inl TypeError"
    by (simp add: handleStatusChange_def useOccupancySection_def createInitialInfoState_apply
        statuses_for_def)
qed

end
